theory Spec2Isabelle
  imports Main "HOL-Library.Word" "HOL-Library.Log_Nat"
begin

section \<open>Python values used by \<open>tz_info.py\<close>\<close>

text \<open>
  The module decodes a TZif buffer with \<open>struct.unpack\<close> and answers lookups on the
  decoded tables. Bytes are 8-bit words, Python integers are unbounded (\<open>int\<close>, or
  \<open>nat\<close> for the unsigned counts), exceptions are values of a sum type.
\<close>

type_synonym byte = "8 word"

text \<open>
  The exceptions the code can raise. Every \<open>assert\<close> of the source raises a bare
  \<open>AssertionError\<close>; the argument is the source line of the failed assertion.
  \<open>RecursionError\<close> is the interpreter's answer to a recursion deeper than its limit.
\<close>

datatype error =
    StructError
  | AssertionError nat
  | TypeError
  | IndexError
  | RecursionError
  | OverflowError
  | OSError

text \<open>
  The attribute \<open>version\<close> holds the integer \<open>0\<close> after \<open>__init__\<close> and the
  one-byte \<open>bytes\<close> object produced by the \<open>c\<close> format after \<open>read_header\<close>.
  Python's \<open>==\<close> between an \<open>int\<close> and a \<open>bytes\<close> object is always false, which
  is what equality of this datatype gives.
\<close>

datatype pyval = PyInt int | PyBytes "byte list"

definition bindE :: "error + 'a \<Rightarrow> ('a \<Rightarrow> error + 'b) \<Rightarrow> error + 'b" where
  "bindE m f = (case m of Inl e \<Rightarrow> Inl e | Inr x \<Rightarrow> f x)"

text \<open>\<open>buf[b:e]\<close> for non-negative bounds: never raises, shortens at the end of the data.\<close>

definition pyslice :: "'a list \<Rightarrow> nat \<Rightarrow> nat \<Rightarrow> 'a list" where
  "pyslice xs b e = take (e - b) (drop b xs)"

text \<open>
  Subscripting a list or tuple with an integer: positions \<open>0 .. len-1\<close> are read
  directly, positions \<open>-len .. -1\<close> are taken from the end, any other position raises
  \<open>IndexError\<close>.
\<close>

definition py_index :: "'a list \<Rightarrow> int \<Rightarrow> error + 'a" where
  "py_index xs i =
     (if 0 \<le> i \<and> i < int (length xs) then Inr (xs ! nat i)
      else if - int (length xs) \<le> i \<and> i < 0 then Inr (xs ! nat (int (length xs) + i))
      else Inl IndexError)"

subsection \<open>\<open>struct.unpack\<close>\<close>

text \<open>Big-endian (network order, \<open>!\<close>) unsigned and two's-complement signed values.\<close>

definition be_uint :: "byte list \<Rightarrow> nat" where
  "be_uint bs = foldl (\<lambda>acc b. acc * 256 + unat b) 0 bs"

definition be_sint :: "byte list \<Rightarrow> int" where
  "be_sint bs =
     (let u = int (be_uint bs); n = 8 * length bs
      in if 2 ^ (n - 1) \<le> u then u - 2 ^ n else u)"

text \<open>
  \<open>struct.unpack(fmt, data)\<close> raises \<open>struct.error\<close> unless \<open>data\<close> has exactly the
  size of the format. \<open>unpack_signed w n\<close> is the format \<open>!nl\<close> (\<open>w = 4\<close>) or
  \<open>!nq\<close> (\<open>w = 8\<close>); \<open>unpack_B n\<close> is \<open>nB\<close>.
\<close>

definition unpack_signed :: "nat \<Rightarrow> nat \<Rightarrow> byte list \<Rightarrow> error + int list" where
  "unpack_signed w n data =
     (if length data \<noteq> n * w then Inl StructError
      else Inr (map (\<lambda>i. be_sint (pyslice data (i * w) (i * w + w))) [0..<n]))"

definition unpack_B :: "nat \<Rightarrow> byte list \<Rightarrow> error + nat list" where
  "unpack_B n data =
     (if length data \<noteq> n then Inl StructError else Inr (map unat data))"

text \<open>\<open>!lBB\<close>: one local time type record, a 3-tuple.\<close>

definition unpack_lBB :: "byte list \<Rightarrow> error + (int \<times> nat \<times> nat)" where
  "unpack_lBB data =
     (if length data \<noteq> 6 then Inl StructError
      else Inr (be_sint (pyslice data 0 4), unat (data ! 4), unat (data ! 5)))"

text \<open>\<open>!ll\<close> (\<open>w = 4\<close>) or \<open>!ql\<close> (\<open>w = 8\<close>): one leap-second record, a 2-tuple.\<close>

definition unpack_leap :: "nat \<Rightarrow> byte list \<Rightarrow> error + (int \<times> int)" where
  "unpack_leap w data =
     (if length data \<noteq> w + 4 then Inl StructError
      else Inr (be_sint (pyslice data 0 w), be_sint (pyslice data w (w + 4))))"

section \<open>The class \<open>TZInfo\<close>\<close>

record TZInfo =
  tz :: string
  basedir :: string
  version :: pyval
  isutcnt :: nat
  isstdcnt :: nat
  leapcnt :: nat
  timecnt :: nat
  typecnt :: nat
  charcnt :: nat
  transition_times :: "int list option"
  transition_types :: "nat list option"
  local_time_type_records :: "(int \<times> nat \<times> nat) list option"
  time_zone_designations :: "byte list option"
  leap_seconds_records :: "(int \<times> int) list option"
  standard_wall_indicators :: "nat list option"
  ut_local_indicators :: "nat list option"
  tz_strings :: "byte list option"

definition HEADER_LEN :: nat where
  "HEADER_LEN = 44"

definition BASEDIR :: string where
  "BASEDIR = ''/usr/share/zoneinfo''"

text \<open>\<open>__init__\<close>\<close>

definition TZInfo_init :: "string \<Rightarrow> TZInfo" where
  "TZInfo_init name =
     \<lparr> tz = name, basedir = BASEDIR, version = PyInt 0,
       isutcnt = 0, isstdcnt = 0, leapcnt = 0, timecnt = 0, typecnt = 0, charcnt = 0,
       transition_times = None, transition_types = None,
       local_time_type_records = None, time_zone_designations = None,
       leap_seconds_records = None, standard_wall_indicators = None,
       ut_local_indicators = None, tz_strings = None \<rparr>"

subsection \<open>\<open>read_header\<close>\<close>

text \<open>The magic tag \<open>b'TZif'\<close>.\<close>

definition TZif :: "byte list" where
  "TZif = [0x54, 0x5A, 0x69, 0x66]"

text \<open>
  \<open>struct.unpack("!4sc15xIIIIII", mem)\<close>: 44 bytes exactly, then the four assertions of
  lines 64 to 67, then the seven assignments. The \<open>c\<close> field is a \<open>bytes\<close> object of
  length one, compared with the integer \<open>0\<close> and with \<open>b'2'\<close> and \<open>b'3'\<close>.
\<close>

definition read_header :: "byte list \<Rightarrow> TZInfo \<Rightarrow> error + TZInfo" where
  "read_header mem st =
     (if length mem \<noteq> 44 then Inl StructError
      else
        let magic = pyslice mem 0 4;
            ver = PyBytes (pyslice mem 4 5);
            isutcnt' = be_uint (pyslice mem 20 24);
            isstdcnt' = be_uint (pyslice mem 24 28);
            leapcnt' = be_uint (pyslice mem 28 32);
            timecnt' = be_uint (pyslice mem 32 36);
            typecnt' = be_uint (pyslice mem 36 40);
            charcnt' = be_uint (pyslice mem 40 44)
        in if magic \<noteq> TZif then Inl (AssertionError 64)
           else if \<not> (ver = PyInt 0 \<or> ver = PyBytes [0x32] \<or> ver = PyBytes [0x33])
             then Inl (AssertionError 65)
           else if \<not> (isutcnt' = 0 \<or> isutcnt' = typecnt') then Inl (AssertionError 66)
           else if \<not> (isstdcnt' = 0 \<or> isstdcnt' = typecnt') then Inl (AssertionError 67)
           else Inr (st\<lparr> version := ver, isutcnt := isutcnt', isstdcnt := isstdcnt',
                          leapcnt := leapcnt', timecnt := timecnt', typecnt := typecnt',
                          charcnt := charcnt' \<rparr>))"

subsection \<open>\<open>get_data_block_len\<close>\<close>

text \<open>
  The argument is compared with the integer \<open>1\<close>; the callers pass the default \<open>1\<close>
  or the attribute \<open>version\<close>. The length is accumulated field by field.
\<close>

definition get_data_block_len :: "TZInfo \<Rightarrow> pyval \<Rightarrow> nat" where
  "get_data_block_len st data_block_ver =
     (let TIME_SIZE = (if data_block_ver = PyInt 1 then 4 else 8);
          data_block_len = timecnt st * TIME_SIZE;
          data_block_len = data_block_len + timecnt st;
          data_block_len = data_block_len + typecnt st * 6;
          data_block_len = data_block_len + charcnt st;
          data_block_len = data_block_len + leapcnt st * (TIME_SIZE + 4);
          data_block_len = data_block_len + isstdcnt st;
          data_block_len = data_block_len + isutcnt st
      in data_block_len)"

subsection \<open>\<open>read_data_block\<close>\<close>

text \<open>
  The loops \<open>for i in range(0, n): _records.append(struct.unpack(...))\<close>: the first
  record that fails to unpack raises.
\<close>

primrec mapE :: "('a \<Rightarrow> error + 'b) \<Rightarrow> 'a list \<Rightarrow> error + 'b list" where
  "mapE f [] = Inr []"
| "mapE f (x # xs) = bindE (f x) (\<lambda>y. bindE (mapE f xs) (\<lambda>ys. Inr (y # ys)))"

text \<open>
  The body of \<open>read_data_block\<close>, one definition for each \<open>if\<close> block, threading the
  object and \<open>mem_idx\<close>. \<open>TIME_SIZE\<close> is the local variable of the source: it and the
  formats \<open>l\<close>/\<open>q\<close> are both chosen by the test \<open>self.version == 0\<close>. A block whose
  count is zero is skipped and assigns nothing. When a block raises, the attributes
  assigned by the blocks before it stay assigned on the Python object; the model returns
  the exception alone.
\<close>

definition read_times_types :: "nat \<Rightarrow> byte list \<Rightarrow> TZInfo \<times> nat \<Rightarrow> error + TZInfo \<times> nat" where
  "read_times_types TIME_SIZE mem s =
     (case s of (st, mem_idx) \<Rightarrow>
        if timecnt st = 0 then Inr (st, mem_idx)
        else bindE (unpack_signed TIME_SIZE (timecnt st) (pyslice mem 0 (timecnt st * TIME_SIZE)))
          (\<lambda>ts. let st1 = st\<lparr>transition_times := Some ts\<rparr>;
                    mem_idx1 = mem_idx + timecnt st * TIME_SIZE
                in bindE (unpack_B (timecnt st) (pyslice mem mem_idx1 (mem_idx1 + timecnt st)))
                     (\<lambda>tys. Inr (st1\<lparr>transition_types := Some tys\<rparr>, mem_idx1 + timecnt st))))"

definition read_type_records :: "byte list \<Rightarrow> TZInfo \<times> nat \<Rightarrow> error + TZInfo \<times> nat" where
  "read_type_records mem s =
     (case s of (st, mem_idx) \<Rightarrow>
        if typecnt st = 0 then Inr (st, mem_idx)
        else let records = pyslice mem mem_idx (mem_idx + typecnt st * 6);
                 mem_idx1 = mem_idx + typecnt st * 6
             in bindE (mapE (\<lambda>i. unpack_lBB (pyslice records (i * 6) (i * 6 + 6))) [0..<typecnt st])
                  (\<lambda>rs. Inr (st\<lparr>local_time_type_records := Some rs\<rparr>, mem_idx1)))"

definition read_designations :: "byte list \<Rightarrow> TZInfo \<times> nat \<Rightarrow> error + TZInfo \<times> nat" where
  "read_designations mem s =
     (case s of (st, mem_idx) \<Rightarrow>
        if charcnt st = 0 then Inr (st, mem_idx)
        else Inr (st\<lparr>time_zone_designations := Some (pyslice mem mem_idx (mem_idx + charcnt st))\<rparr>,
                  mem_idx + charcnt st))"

definition read_leap_records :: "nat \<Rightarrow> byte list \<Rightarrow> TZInfo \<times> nat \<Rightarrow> error + TZInfo \<times> nat" where
  "read_leap_records TIME_SIZE mem s =
     (case s of (st, mem_idx) \<Rightarrow>
        if leapcnt st = 0 then Inr (st, mem_idx)
        else let records = pyslice mem mem_idx (mem_idx + leapcnt st * (TIME_SIZE + 4))
             in bindE (mapE (\<lambda>i. unpack_leap TIME_SIZE
                              (pyslice records (i * (TIME_SIZE + 4))
                                 (i * (TIME_SIZE + 4) + (TIME_SIZE + 4)))) [0..<leapcnt st])
                  (\<lambda>rs. Inr (st\<lparr>leap_seconds_records := Some rs\<rparr>,
                             mem_idx + leapcnt st * (TIME_SIZE + 4))))"

definition read_std_indicators :: "byte list \<Rightarrow> TZInfo \<times> nat \<Rightarrow> error + TZInfo \<times> nat" where
  "read_std_indicators mem s =
     (case s of (st, mem_idx) \<Rightarrow>
        if isstdcnt st = 0 then Inr (st, mem_idx)
        else bindE (unpack_B (isstdcnt st) (pyslice mem mem_idx (mem_idx + isstdcnt st)))
          (\<lambda>xs. Inr (st\<lparr>standard_wall_indicators := Some xs\<rparr>, mem_idx + isstdcnt st)))"

definition read_ut_indicators :: "byte list \<Rightarrow> TZInfo \<times> nat \<Rightarrow> error + TZInfo \<times> nat" where
  "read_ut_indicators mem s =
     (case s of (st, mem_idx) \<Rightarrow>
        if isutcnt st = 0 then Inr (st, mem_idx)
        else bindE (unpack_B (isutcnt st) (pyslice mem mem_idx (mem_idx + isutcnt st)))
          (\<lambda>xs. Inr (st\<lparr>ut_local_indicators := Some xs\<rparr>, mem_idx)))"

definition read_data_block_at :: "nat \<Rightarrow> byte list \<Rightarrow> TZInfo \<Rightarrow> error + TZInfo" where
  "read_data_block_at TIME_SIZE mem st =
     bindE (read_times_types TIME_SIZE mem (st, 0))
       (\<lambda>s. bindE (read_type_records mem s)
       (\<lambda>s. bindE (read_designations mem s)
       (\<lambda>s. bindE (read_leap_records TIME_SIZE mem s)
       (\<lambda>s. bindE (read_std_indicators mem s)
       (\<lambda>s. bindE (read_ut_indicators mem s)
       (\<lambda>s. Inr (fst s)))))))"

definition read_data_block :: "byte list \<Rightarrow> TZInfo \<Rightarrow> error + TZInfo" where
  "read_data_block mem st =
     read_data_block_at (if version st = PyInt 0 then 4 else 8) mem st"

subsection \<open>\<open>read_footer\<close> and \<open>read\<close>\<close>

definition read_footer :: "byte list \<Rightarrow> TZInfo \<Rightarrow> TZInfo" where
  "read_footer buf st = st\<lparr>tz_strings := Some buf\<rparr>"

text \<open>
  \<open>read\<close>, once the zone file has been opened and read: \<open>buf\<close> is its contents. The
  variables \<open>begin'\<close>, \<open>begin1\<close>, ... and \<open>end'\<close>, \<open>end1\<close>, ... are the successive
  settings of the two cursors \<open>begin\<close> and \<open>end\<close> of the source.
\<close>

definition read :: "byte list \<Rightarrow> TZInfo \<Rightarrow> error + TZInfo" where
  "read buf st =
     (if \<not> (length buf > HEADER_LEN) then Inl (AssertionError 157)
      else
        let begin' = 0; end' = HEADER_LEN
        in bindE (read_header (pyslice buf begin' end') st)
          (\<lambda>st1.
             let begin1 = end'; end1 = end' + get_data_block_len st1 (PyInt 1)
             in if version st1 = PyInt 0 then read_data_block (pyslice buf begin1 end1) st1
                else
                  let begin2 = end1; end2 = end1 + HEADER_LEN
                  in bindE (read_header (pyslice buf begin2 end2) st1)
                    (\<lambda>st2.
                       let begin3 = end2; end3 = end2 + get_data_block_len st2 (version st2)
                       in bindE (read_data_block (pyslice buf begin3 end3) st2)
                         (\<lambda>st3. let begin4 = end3 in Inr (read_footer (drop begin4 buf) st3)))))"

subsection \<open>The transition search\<close>

text \<open>
  \<open>int((begin + end) / 2)\<close>: true division, then truncation towards zero. The quotient is
  exact for sums below \<open>2 ^ 53\<close> in magnitude, which covers every index of a table whose
  count is a 32-bit value.
\<close>

definition trunc_half :: "int \<Rightarrow> int" where
  "trunc_half x = (if 0 \<le> x then x div 2 else - ((- x) div 2))"

text \<open>
  \<open>__search_transition_index\<close>. The first argument is the recursion depth the
  interpreter still allows: a call made when none is left raises \<open>RecursionError\<close>.
  Indexing \<open>None\<close> raises \<open>TypeError\<close>.
\<close>

fun search_transition_index :: "nat \<Rightarrow> TZInfo \<Rightarrow> int \<Rightarrow> int \<Rightarrow> int \<Rightarrow> error + int" where
  "search_transition_index 0 st timestamp begin' end' = Inl RecursionError"
| "search_transition_index (Suc depth) st timestamp begin' end' =
     (case transition_times st of
        None \<Rightarrow> Inl TypeError
      | Some ts \<Rightarrow>
          bindE (py_index ts (int (timecnt st) - 1))
            (\<lambda>last_time.
               if timestamp \<ge> last_time then Inr (int (timecnt st) - 1)
               else bindE (py_index ts 0)
                 (\<lambda>first_time.
                    if timestamp < first_time then Inr (- 1)
                    else if begin' + 1 = end' then
                      bindE (py_index ts end')
                        (\<lambda>end_time. if timestamp < end_time then Inr begin' else Inr end')
                    else if begin' = end' then Inr begin'
                    else
                      let mid = trunc_half (begin' + end')
                      in bindE (py_index ts mid)
                           (\<lambda>mid_time.
                              if timestamp < mid_time
                              then search_transition_index depth st timestamp begin' (mid - 1)
                              else if timestamp > mid_time
                              then search_transition_index depth st timestamp mid end'
                              else Inr mid))))"

declare search_transition_index.simps [simp del]

definition get_transition_index :: "nat \<Rightarrow> TZInfo \<Rightarrow> int \<Rightarrow> error + int" where
  "get_transition_index depth st timestamp =
     (if timecnt st = 0 then Inr (- 1)
      else search_transition_index depth st timestamp 0 (int (timecnt st) - 1))"

subsection \<open>The local time type lookup\<close>

definition get_local_time_type :: "TZInfo \<Rightarrow> int \<Rightarrow> error + (int \<times> nat \<times> nat) option" where
  "get_local_time_type st trans_idx =
     (if timecnt st = 0 then Inr None
      else if \<not> (0 \<le> trans_idx \<and> trans_idx \<le> int (timecnt st) - 1)
        then Inl (AssertionError 213)
      else case transition_types st of
          None \<Rightarrow> Inl TypeError
        | Some tys \<Rightarrow>
            bindE (py_index tys trans_idx)
              (\<lambda>type_index.
                 if \<not> (0 \<le> int type_index \<and> int type_index \<le> int (typecnt st) - 1)
                   then Inl (AssertionError 215)
                 else case local_time_type_records st of
                     None \<Rightarrow> Inl TypeError
                   | Some rs \<Rightarrow> bindE (py_index rs (int type_index)) (\<lambda>r. Inr (Some r))))"

definition LOCAL_TIME_TYPE_FIELD_UTOFF :: int where
  "LOCAL_TIME_TYPE_FIELD_UTOFF = 0"

definition LOCAL_TIME_TYPE_FIELD_ISDST :: int where
  "LOCAL_TIME_TYPE_FIELD_ISDST = 1"

definition LOCAL_TIME_TYPE_FIELD_DESIG_IDX :: int where
  "LOCAL_TIME_TYPE_FIELD_DESIG_IDX = 2"

text \<open>A record is the 3-tuple \<open>(utoff, isdst, desigidx)\<close>, read by position.\<close>

definition get_local_time_type_field :: "TZInfo \<Rightarrow> int \<Rightarrow> int \<Rightarrow> error + int" where
  "get_local_time_type_field st trans_idx column =
     (if \<not> (LOCAL_TIME_TYPE_FIELD_UTOFF \<le> column \<and> column \<le> LOCAL_TIME_TYPE_FIELD_DESIG_IDX)
        then Inl (AssertionError 223)
      else bindE (get_local_time_type st trans_idx)
        (\<lambda>local_time_type.
           case local_time_type of
             None \<Rightarrow> Inr 0
           | Some (utoff, isdst, desigidx) \<Rightarrow>
               py_index [utoff, int isdst, int desigidx] column))"

definition get_transition_offset :: "TZInfo \<Rightarrow> int \<Rightarrow> error + int" where
  "get_transition_offset st trans_idx =
     get_local_time_type_field st trans_idx LOCAL_TIME_TYPE_FIELD_UTOFF"

definition get_transition_isdst :: "TZInfo \<Rightarrow> int \<Rightarrow> error + int" where
  "get_transition_isdst st trans_idx =
     get_local_time_type_field st trans_idx LOCAL_TIME_TYPE_FIELD_ISDST"

definition get_transition_desig_index :: "TZInfo \<Rightarrow> int \<Rightarrow> error + int" where
  "get_transition_desig_index st trans_idx =
     get_local_time_type_field st trans_idx LOCAL_TIME_TYPE_FIELD_DESIG_IDX"

subsection \<open>\<open>utoff_strftime\<close>\<close>







section \<open>What a data-block pass needs and changes\<close>

text \<open>
  The length of a data block for a time-value width, as \<open>get_data_block_len\<close> adds it up.
\<close>

definition data_block_len :: "nat \<Rightarrow> TZInfo \<Rightarrow> nat" where
  "data_block_len w st =
     timecnt st * w + timecnt st + typecnt st * 6 + charcnt st + leapcnt st * (w + 4)
       + isstdcnt st + isutcnt st"

text \<open>An array attribute is present and has \<open>n\<close> entries.\<close>

definition len_ok :: "'a list option \<Rightarrow> nat \<Rightarrow> bool" where
  "len_ok x n = (case x of None \<Rightarrow> False | Some xs \<Rightarrow> length xs = n)"

text \<open>The number of entries of an array attribute, an absent one (\<open>None\<close>) counting as 0.\<close>

definition len_of :: "'a list option \<Rightarrow> nat" where
  "len_of x = (case x of None \<Rightarrow> 0 | Some xs \<Rightarrow> length xs)"

text \<open>
  \<open>keeps st st'\<close>: the header attributes and the footer are those of \<open>st\<close>, and each
  array attribute is either the one of \<open>st\<close> or was assigned under a non-zero count
  (with as many entries as the count says, for the unpacked ones).
\<close>

definition keeps :: "TZInfo \<Rightarrow> TZInfo \<Rightarrow> bool" where
  "keeps st st' \<longleftrightarrow>
     version st' = version st \<and> isutcnt st' = isutcnt st \<and> isstdcnt st' = isstdcnt st \<and>
     leapcnt st' = leapcnt st \<and> timecnt st' = timecnt st \<and> typecnt st' = typecnt st \<and>
     charcnt st' = charcnt st \<and> tz_strings st' = tz_strings st \<and>
     (transition_times st' = transition_times st \<or>
        0 < timecnt st \<and> len_ok (transition_times st') (timecnt st)) \<and>
     (transition_types st' = transition_types st \<or>
        0 < timecnt st \<and> len_ok (transition_types st') (timecnt st)) \<and>
     (local_time_type_records st' = local_time_type_records st \<or>
        0 < typecnt st \<and> len_ok (local_time_type_records st') (typecnt st)) \<and>
     (time_zone_designations st' = time_zone_designations st \<or> 0 < charcnt st) \<and>
     (leap_seconds_records st' = leap_seconds_records st \<or>
        0 < leapcnt st \<and> len_ok (leap_seconds_records st') (leapcnt st)) \<and>
     (standard_wall_indicators st' = standard_wall_indicators st \<or>
        0 < isstdcnt st \<and> len_ok (standard_wall_indicators st') (isstdcnt st)) \<and>
     (ut_local_indicators st' = ut_local_indicators st \<or>
        0 < isutcnt st \<and> len_ok (ut_local_indicators st') (isutcnt st))"

text \<open>
  The length below which \<open>read_data_block\<close> runs out of bytes in an unpacked field: the
  designation bytes are sliced, not unpacked, so they count only when an unpacked field
  follows them.
\<close>

definition required_len :: "nat \<Rightarrow> TZInfo \<Rightarrow> nat" where
  "required_len w st =
     (if leapcnt st = 0 \<and> isstdcnt st = 0 \<and> isutcnt st = 0
      then data_block_len w st - charcnt st else data_block_len w st)"

text \<open>Every unpacked array with a non-zero count is present with that many entries.\<close>

definition arrays_ok :: "TZInfo \<Rightarrow> bool" where
  "arrays_ok st \<longleftrightarrow>
     (0 < timecnt st \<longrightarrow> len_ok (transition_times st) (timecnt st) \<and>
                          len_ok (transition_types st) (timecnt st)) \<and>
     (0 < typecnt st \<longrightarrow> len_ok (local_time_type_records st) (typecnt st)) \<and>
     (0 < leapcnt st \<longrightarrow> len_ok (leap_seconds_records st) (leapcnt st)) \<and>
     (0 < isstdcnt st \<longrightarrow> len_ok (standard_wall_indicators st) (isstdcnt st)) \<and>
     (0 < isutcnt st \<longrightarrow> len_ok (ut_local_indicators st) (isutcnt st))"

text \<open>A block whose count is zero has left its attributes as they were.\<close>

definition zero_counts_untouched :: "TZInfo \<Rightarrow> TZInfo \<Rightarrow> bool" where
  "zero_counts_untouched st st' \<longleftrightarrow>
     (timecnt st = 0 \<longrightarrow> transition_times st' = transition_times st \<and>
                          transition_types st' = transition_types st) \<and>
     (typecnt st = 0 \<longrightarrow> local_time_type_records st' = local_time_type_records st) \<and>
     (charcnt st = 0 \<longrightarrow> time_zone_designations st' = time_zone_designations st) \<and>
     (leapcnt st = 0 \<longrightarrow> leap_seconds_records st' = leap_seconds_records st) \<and>
     (isstdcnt st = 0 \<longrightarrow> standard_wall_indicators st' = standard_wall_indicators st) \<and>
     (isutcnt st = 0 \<longrightarrow> ut_local_indicators st' = ut_local_indicators st)"

section \<open>The behaviour the specification describes\<close>




text \<open>
  The data-block parser of the specification returns every decoded array, an empty or
  absent one for a zero count, so each pass replaces what was decoded before: the arrays
  are cleared and the block is decoded with the parser of the source.
\<close>

definition clear_arrays :: "TZInfo \<Rightarrow> TZInfo" where
  "clear_arrays st =
     st\<lparr> transition_times := None, transition_types := None,
         local_time_type_records := None, time_zone_designations := None,
         leap_seconds_records := None, standard_wall_indicators := None,
         ut_local_indicators := None \<rparr>"

definition decode_block :: "nat \<Rightarrow> byte list \<Rightarrow> TZInfo \<Rightarrow> error + TZInfo" where
  "decode_block w mem st = read_data_block_at w mem (clear_arrays st)"

text \<open>
  The two-pass reading of the orchestrator: the first data block is decoded with 4-byte
  time values; then, for an extended version, the second header is parsed, the second
  data block is decoded with 8-byte time values, overwriting the decoded arrays, and the
  rest is the footer.
\<close>

definition read_two_pass :: "byte list \<Rightarrow> TZInfo \<Rightarrow> error + TZInfo" where
  "read_two_pass buf st =
     (if \<not> (length buf > HEADER_LEN) then Inl (AssertionError 157)
      else bindE (read_header (pyslice buf 0 HEADER_LEN) st)
        (\<lambda>st1.
           let end1 = HEADER_LEN + data_block_len 4 st1
           in bindE (decode_block 4 (pyslice buf HEADER_LEN end1) st1)
             (\<lambda>st1'.
                if version st1' = PyInt 0 \<or> version st1' = PyBytes [0] then Inr st1'
                else
                  let end2 = end1 + HEADER_LEN
                  in bindE (read_header (pyslice buf end1 end2) st1')
                    (\<lambda>st2.
                       let end3 = end2 + data_block_len 8 st2
                       in bindE (decode_block 8 (pyslice buf end2 end3) st2)
                         (\<lambda>st3. Inr (read_footer (drop end3 buf) st3))))))"

text \<open>An object on which no array has been decoded yet, as \<open>__init__\<close> leaves it.\<close>

definition no_arrays :: "TZInfo \<Rightarrow> bool" where
  "no_arrays st \<longleftrightarrow>
     transition_times st = None \<and> transition_types st = None \<and>
     local_time_type_records st = None \<and> time_zone_designations st = None \<and>
     leap_seconds_records st = None \<and> standard_wall_indicators st = None \<and>
     ut_local_indicators st = None"

section \<open>Examples\<close>

text \<open>A 44-byte header: magic, version byte, 15 unused bytes, six 32-bit counts.\<close>

definition be32 :: "nat \<Rightarrow> byte list" where
  "be32 n = [of_nat (n div 16777216), of_nat (n div 65536), of_nat (n div 256), of_nat n]"

definition mk_header :: "byte \<Rightarrow> nat \<Rightarrow> nat \<Rightarrow> nat \<Rightarrow> nat \<Rightarrow> nat \<Rightarrow> nat \<Rightarrow> byte list" where
  "mk_header v nutc nstd nleap ntime ntype nchar =
     TZif @ [v] @ replicate 15 0 @ be32 nutc @ be32 nstd @ be32 nleap
          @ be32 ntime @ be32 ntype @ be32 nchar"

text \<open>The header of a version-1 file: the version byte is NUL, every count is zero.\<close>

definition legacy_header :: "byte list" where
  "legacy_header = mk_header 0 0 0 0 0 0 0"

text \<open>A decoded zone with the given transition times, transition types and records.\<close>

definition mk_zone :: "int list \<Rightarrow> nat list \<Rightarrow> (int \<times> nat \<times> nat) list \<Rightarrow> TZInfo" where
  "mk_zone ts tys rs =
     (TZInfo_init ''Zone'')\<lparr> version := PyBytes [0x32],
        timecnt := length ts, typecnt := length rs,
        transition_times := Some ts, transition_types := Some tys,
        local_time_type_records := Some rs \<rparr>"

text \<open>Two transitions, two local time types.\<close>

definition scenario_A :: TZInfo where
  "scenario_A = mk_zone [- 100, 100] [0, 1] [(- 3600, 0, 0), (0, 1, 4)]"

text \<open>A non-decreasing table in which a transition time occurs three times.\<close>

definition repeated_times :: TZInfo where
  "repeated_times = mk_zone [0, 5, 5, 5, 10] [0, 0, 0, 0, 0] [(0, 0, 0)]"

text \<open>A table that is not in ascending order; no parser check excludes it.\<close>

definition descending_times :: TZInfo where
  "descending_times = mk_zone [5, 0] [0, 0] [(0, 0, 0)]"

text \<open>
  A version-2 zone file: a first header and data block (one transition), a second header
  and data block (two transitions, one record, one designation byte), and a footer. The
  second block holds the times 5 and 0, the type indices 0 and 7 and the designation
  index 9.
\<close>

definition zone_h1 :: "byte list" where
  "zone_h1 = mk_header 0x32 0 0 0 1 1 0"

definition zone_b1 :: "byte list" where
  "zone_b1 = [0, 0, 0, 7, 0, 0, 0, 0x0E, 0x10, 0, 0]"

definition zone_h2 :: "byte list" where
  "zone_h2 = mk_header 0x32 0 0 0 2 1 1"

definition zone_b2 :: "byte list" where
  "zone_b2 = [0, 0, 0, 0, 0, 0, 0, 5, 0, 0, 0, 0, 0, 0, 0, 0, 0, 7, 0, 0, 0x0E, 0x10, 1, 9, 0x41]"

definition zone_foot :: "byte list" where
  "zone_foot = [0x0A, 0x0A]"

definition zone_file :: "byte list" where
  "zone_file = zone_h1 @ zone_b1 @ zone_h2 @ zone_b2 @ zone_foot"

text \<open>The seven assignments at the end of \<open>read_header\<close>.\<close>

definition set_header :: "byte \<Rightarrow> nat \<Rightarrow> nat \<Rightarrow> nat \<Rightarrow> nat \<Rightarrow> nat \<Rightarrow> nat \<Rightarrow> TZInfo \<Rightarrow> TZInfo" where
  "set_header v nutc nstd nleap ntime ntype nchar st =
     st\<lparr> version := PyBytes [v], isutcnt := nutc, isstdcnt := nstd, leapcnt := nleap,
         timecnt := ntime, typecnt := ntype, charcnt := nchar \<rparr>"

text \<open>The document that \<open>read\<close> builds from \<open>zone_file\<close>.\<close>

definition zone_doc :: TZInfo where
  "zone_doc =
     (set_header 0x32 0 0 0 2 1 1 (TZInfo_init ''Zone''))
       \<lparr> transition_times := Some [5, 0], transition_types := Some [0, 7],
         local_time_type_records := Some [(3600, 1, 9)],
         time_zone_designations := Some [0x41], tz_strings := Some [0x0A, 0x0A] \<rparr>"

text \<open>The same first header and block, followed by a second header whose counts are all zero.\<close>

definition skipped_file :: "byte list" where
  "skipped_file = zone_h1 @ zone_b1 @ mk_header 0x32 0 0 0 0 0 0 @ [] @ zone_foot"

text \<open>The object after a header that announces four designation bytes and nothing else.\<close>

definition desig_only :: TZInfo where
  "desig_only = set_header 0x32 0 0 0 0 0 4 (TZInfo_init ''Zone'')"

section \<open>Basic facts\<close>

lemma bindE_Inr_iff: "bindE m f = Inr y \<longleftrightarrow> (\<exists>x. m = Inr x \<and> f x = Inr y)"
  by (cases m) (simp_all add: bindE_def)

lemma bindE_Inl_iff: "bindE m f = Inl e \<longleftrightarrow> m = Inl e \<or> (\<exists>x. m = Inr x \<and> f x = Inl e)"
  by (cases m) (simp_all add: bindE_def)

lemma bindE_Inr [simp]: "bindE (Inr x) f = f x"
  by (simp add: bindE_def)

lemma bindE_Inl [simp]: "bindE (Inl e) f = Inl e"
  by (simp add: bindE_def)

lemma length_pyslice: "length (pyslice xs b e) = min (e - b) (length xs - b)"
  by (simp add: pyslice_def)

lemma pyslice_pyslice: "b' \<le> e' \<Longrightarrow> b + e' \<le> e \<Longrightarrow> pyslice (pyslice xs b e) b' e' = pyslice xs (b + b') (b + e')"
  by (simp add: pyslice_def take_drop min_def add.commute) 

lemma mapE_Inl: "mapE f xs = Inl e \<Longrightarrow> \<exists>x\<in>set xs. f x = Inl e"
  by (induction xs arbitrary: e) (auto simp: bindE_Inl_iff)

lemma mapE_Inr: "mapE f xs = Inr ys \<Longrightarrow> length ys = length xs \<and> (\<forall>x\<in>set xs. \<exists>y. f x = Inr y)"
  by (induction xs arbitrary: ys) (auto simp: bindE_Inr_iff)

lemma mapE_ok: "\<forall>x\<in>set xs. \<exists>y. f x = Inr y \<Longrightarrow> \<exists>ys. mapE f xs = Inr ys"
  by (induction xs) (auto simp: bindE_Inr_iff)

lemma keeps_refl: "keeps st st"
  by (simp add: keeps_def)

lemma keeps_trans: "keeps a b \<Longrightarrow> keeps b c \<Longrightarrow> keeps a c"
  unfolding keeps_def by (elim conjE, intro conjI; (simp; fail)?; metis)

lemma length_pyslice_full: "e \<le> length xs \<Longrightarrow> length (pyslice xs b e) = e - b"
  by (simp add: pyslice_def)

section \<open>The blocks of \<open>read_data_block\<close>\<close>

lemma read_times_types_Inl:
  "read_times_types w mem (st, idx) = Inl e \<Longrightarrow> e = StructError"
  by (auto simp: read_times_types_def bindE_Inl_iff unpack_signed_def unpack_B_def Let_def split: if_splits)

lemma read_times_types_Inr:
  assumes "read_times_types w mem (st, 0) = Inr (st', idx')"
  shows "idx' = timecnt st * w + timecnt st \<and> keeps st st' \<and>
         (0 < timecnt st \<longrightarrow> timecnt st * w + timecnt st \<le> length mem \<and>
            len_ok (transition_times st') (timecnt st) \<and> len_ok (transition_types st') (timecnt st))"
  using assms
  by (auto simp: read_times_types_def bindE_Inr_iff unpack_signed_def unpack_B_def Let_def keeps_def
      len_ok_def length_pyslice split: if_splits)

lemma read_times_types_ok:
  assumes "timecnt st = 0 \<or> timecnt st * w + timecnt st \<le> length mem"
  shows "\<exists>st'. read_times_types w mem (st, 0) = Inr (st', timecnt st * w + timecnt st)"
  using assms
  by (auto simp: read_times_types_def bindE_Inr_iff unpack_signed_def unpack_B_def Let_def 
      length_pyslice split: if_splits)

lemma read_type_records_Inl:
  "read_type_records mem (st, idx) = Inl e \<Longrightarrow> e = StructError"
  by (auto simp: read_type_records_def bindE_Inl_iff unpack_lBB_def Let_def split: if_splits dest!: mapE_Inl)

lemma read_type_records_Inr:
  assumes "read_type_records mem (st, idx) = Inr (st', idx')"
  shows "idx' = idx + typecnt st * 6 \<and> keeps st st' \<and>
         (0 < typecnt st \<longrightarrow> idx + typecnt st * 6 \<le> length mem \<and>
            len_ok (local_time_type_records st') (typecnt st))"
proof (cases "typecnt st = 0")
  case True
  with assms show ?thesis by (auto simp: read_type_records_def keeps_def)
next
  case False
  let ?records = "pyslice mem idx (idx + typecnt st * 6)"
  from assms False obtain rs where
    rs: "mapE (\<lambda>i. unpack_lBB (pyslice ?records (i * 6) (i * 6 + 6))) [0..<typecnt st] = Inr rs"
    and st': "st' = st\<lparr>local_time_type_records := Some rs\<rparr>" and idx': "idx' = idx + typecnt st * 6"
    by (auto simp: read_type_records_def bindE_Inr_iff Let_def)
  from mapE_Inr [OF rs] have len: "length rs = typecnt st"
    and all: "\<forall>i<typecnt st. \<exists>y. unpack_lBB (pyslice ?records (i * 6) (i * 6 + 6)) = Inr y"
    by auto
  from all False have "\<exists>y. unpack_lBB (pyslice ?records ((typecnt st - 1) * 6) ((typecnt st - 1) * 6 + 6)) = Inr y"
    by simp
  then have "length (pyslice ?records ((typecnt st - 1) * 6) ((typecnt st - 1) * 6 + 6)) = 6"
    by (auto simp: unpack_lBB_def split: if_splits)
  then have "idx + typecnt st * 6 \<le> length mem"
    using False by (simp add: length_pyslice min_def split: if_splits)
  with len st' idx' False show ?thesis
    by (simp add: keeps_def len_ok_def)
qed

lemma read_type_records_ok:
  assumes "typecnt st = 0 \<or> idx + typecnt st * 6 \<le> length mem"
  shows "\<exists>st'. read_type_records mem (st, idx) = Inr (st', idx + typecnt st * 6)"
proof (cases "typecnt st = 0")
  case True
  then show ?thesis by (simp add: read_type_records_def)
next
  case False
  let ?records = "pyslice mem idx (idx + typecnt st * 6)"
  from False assms have "length ?records = typecnt st * 6"
    by (simp add: length_pyslice)
  then have "\<forall>i\<in>set [0..<typecnt st]. \<exists>y. unpack_lBB (pyslice ?records (i * 6) (i * 6 + 6)) = Inr y"
    by (auto simp: unpack_lBB_def length_pyslice)
  from mapE_ok [OF this] False show ?thesis
    by (auto simp: read_type_records_def Let_def)
qed

lemma read_designations_Inl:
  "read_designations mem (st, idx) = Inl e \<Longrightarrow> e = StructError"
  by (auto simp: read_designations_def split: if_splits)

lemma read_designations_Inr:
  assumes "read_designations mem (st, idx) = Inr (st', idx')"
  shows "idx' = idx + charcnt st \<and> keeps st st' \<and>
         (0 < charcnt st \<longrightarrow>
            time_zone_designations st' = Some (pyslice mem idx (idx + charcnt st)))"
  using assms by (auto simp: read_designations_def keeps_def split: if_splits)

lemma read_designations_ok:
  "\<exists>st'. read_designations mem (st, idx) = Inr (st', idx + charcnt st)"
  by (simp add: read_designations_def)

lemma read_leap_records_Inl:
  "read_leap_records w mem (st, idx) = Inl e \<Longrightarrow> e = StructError"
  by (auto simp: read_leap_records_def bindE_Inl_iff unpack_leap_def Let_def split: if_splits dest!: mapE_Inl)

lemma read_leap_records_Inr:
  assumes "read_leap_records w mem (st, idx) = Inr (st', idx')"
  shows "idx' = idx + leapcnt st * (w + 4) \<and> keeps st st' \<and>
         (0 < leapcnt st \<longrightarrow> idx + leapcnt st * (w + 4) \<le> length mem \<and>
            len_ok (leap_seconds_records st') (leapcnt st))"
proof (cases "leapcnt st = 0")
  case True
  with assms show ?thesis by (auto simp: read_leap_records_def keeps_def)
next
  case False
  let ?records = "pyslice mem idx (idx + leapcnt st * (w + 4))"
  let ?f = "\<lambda>i. unpack_leap w (pyslice ?records (i * (w + 4)) (i * (w + 4) + (w + 4)))"
  from assms False obtain rs where
    rs: "mapE ?f [0..<leapcnt st] = Inr rs"
    and st': "st' = st\<lparr>leap_seconds_records := Some rs\<rparr>"
    and idx': "idx' = idx + leapcnt st * (w + 4)"
    by (auto simp: read_leap_records_def bindE_Inr_iff Let_def)
  from mapE_Inr [OF rs] have len: "length rs = leapcnt st"
    and all: "\<forall>i<leapcnt st. \<exists>y. ?f i = Inr y"
    by auto
  from all False have "\<exists>y. ?f (leapcnt st - 1) = Inr y"
    by simp
  then have "length (pyslice ?records ((leapcnt st - 1) * (w + 4)) ((leapcnt st - 1) * (w + 4) + (w + 4))) = w + 4"
    by (auto simp: unpack_leap_def split: if_splits)
  then have "length ?records - (leapcnt st - 1) * (w + 4) \<ge> w + 4"
    by (simp add: length_pyslice)
  then have "length ?records \<ge> (leapcnt st - 1) * (w + 4) + (w + 4)"
    by simp
  moreover have "(leapcnt st - 1) * (w + 4) + (w + 4) = leapcnt st * (w + 4)"
    using False by (cases "leapcnt st") simp_all
  ultimately have "leapcnt st * (w + 4) \<le> length mem - idx"
    by (simp add: length_pyslice)
  with False have "idx + leapcnt st * (w + 4) \<le> length mem"
    by (cases "leapcnt st") simp_all
  with len st' idx' False show ?thesis
    by (simp add: keeps_def len_ok_def)
qed

lemma read_leap_records_ok:
  assumes "leapcnt st = 0 \<or> idx + leapcnt st * (w + 4) \<le> length mem"
  shows "\<exists>st'. read_leap_records w mem (st, idx) = Inr (st', idx + leapcnt st * (w + 4))"
proof (cases "leapcnt st = 0")
  case True
  then show ?thesis by (simp add: read_leap_records_def)
next
  case False
  let ?records = "pyslice mem idx (idx + leapcnt st * (w + 4))"
  let ?f = "\<lambda>i. unpack_leap w (pyslice ?records (i * (w + 4)) (i * (w + 4) + (w + 4)))"
  from False assms have len: "length ?records = leapcnt st * (w + 4)"
    by (simp add: length_pyslice)
  have "\<exists>y. ?f i = Inr y" if "i < leapcnt st" for i
  proof -
    from that have "Suc i \<le> leapcnt st" by simp
    then have "Suc i * (w + 4) \<le> leapcnt st * (w + 4)"
      by (rule mult_le_mono1)
    then have "i * (w + 4) + (w + 4) \<le> length ?records"
      using len by simp
    from length_pyslice_full [OF this]
    have "length (pyslice ?records (i * (w + 4)) (i * (w + 4) + (w + 4))) = w + 4"
      by simp
    then show ?thesis by (simp add: unpack_leap_def)
  qed
  then have "\<forall>i\<in>set [0..<leapcnt st]. \<exists>y. ?f i = Inr y"
    by simp
  from mapE_ok [OF this] False show ?thesis
    by (auto simp: read_leap_records_def Let_def)
qed

lemma read_std_indicators_Inl:
  "read_std_indicators mem (st, idx) = Inl e \<Longrightarrow> e = StructError"
  by (auto simp: read_std_indicators_def bindE_Inl_iff unpack_B_def split: if_splits)

lemma read_std_indicators_Inr:
  assumes "read_std_indicators mem (st, idx) = Inr (st', idx')"
  shows "idx' = idx + isstdcnt st \<and> keeps st st' \<and>
         (0 < isstdcnt st \<longrightarrow> idx + isstdcnt st \<le> length mem \<and>
            len_ok (standard_wall_indicators st') (isstdcnt st))"
  using assms
  by (auto simp: read_std_indicators_def bindE_Inr_iff unpack_B_def keeps_def len_ok_def
      length_pyslice split: if_splits)

lemma read_std_indicators_ok:
  assumes "isstdcnt st = 0 \<or> idx + isstdcnt st \<le> length mem"
  shows "\<exists>st'. read_std_indicators mem (st, idx) = Inr (st', idx + isstdcnt st)"
  using assms
  by (auto simp: read_std_indicators_def bindE_Inr_iff unpack_B_def length_pyslice)

lemma read_ut_indicators_Inl:
  "read_ut_indicators mem (st, idx) = Inl e \<Longrightarrow> e = StructError"
  by (auto simp: read_ut_indicators_def bindE_Inl_iff unpack_B_def split: if_splits)

lemma read_ut_indicators_Inr:
  assumes "read_ut_indicators mem (st, idx) = Inr (st', idx')"
  shows "keeps st st' \<and>
         (0 < isutcnt st \<longrightarrow> idx + isutcnt st \<le> length mem \<and>
            len_ok (ut_local_indicators st') (isutcnt st))"
  using assms
  by (auto simp: read_ut_indicators_def bindE_Inr_iff unpack_B_def keeps_def len_ok_def
      length_pyslice split: if_splits)

lemma read_ut_indicators_ok:
  assumes "isutcnt st = 0 \<or> idx + isutcnt st \<le> length mem"
  shows "\<exists>st'. read_ut_indicators mem (st, idx) = Inr (st', idx)"
  using assms
  by (auto simp: read_ut_indicators_def bindE_Inr_iff unpack_B_def length_pyslice)

lemma keeps_counts:
  "keeps a b \<Longrightarrow> version b = version a \<and> isutcnt b = isutcnt a \<and> isstdcnt b = isstdcnt a \<and>
     leapcnt b = leapcnt a \<and> timecnt b = timecnt a \<and> typecnt b = typecnt a \<and> charcnt b = charcnt a"
  by (simp add: keeps_def)

lemma keeps_len_ok:
  assumes "keeps a b"
  shows "len_ok (transition_times a) (timecnt a) \<Longrightarrow> len_ok (transition_times b) (timecnt a)"
    and "len_ok (transition_types a) (timecnt a) \<Longrightarrow> len_ok (transition_types b) (timecnt a)"
    and "len_ok (local_time_type_records a) (typecnt a) \<Longrightarrow> len_ok (local_time_type_records b) (typecnt a)"
    and "len_ok (leap_seconds_records a) (leapcnt a) \<Longrightarrow> len_ok (leap_seconds_records b) (leapcnt a)"
    and "len_ok (standard_wall_indicators a) (isstdcnt a) \<Longrightarrow> len_ok (standard_wall_indicators b) (isstdcnt a)"
    and "len_ok (ut_local_indicators a) (isutcnt a) \<Longrightarrow> len_ok (ut_local_indicators b) (isutcnt a)"
  using assms by (auto simp: keeps_def)

lemma read_data_block_at_Inl:
  assumes "read_data_block_at w mem st = Inl e"
  shows "e = StructError"
  using assms unfolding read_data_block_at_def bindE_Inl_iff
  by (auto dest: read_times_types_Inl read_type_records_Inl read_designations_Inl
      read_leap_records_Inl read_std_indicators_Inl read_ut_indicators_Inl)

lemma read_data_block_at_Inr:
  assumes "read_data_block_at w mem st = Inr st'"
  shows "required_len w st \<le> length mem \<and> keeps st st' \<and> arrays_ok st'"
proof -
  from assms obtain st1 i1 st2 i2 st3 i3 st4 i4 st5 i5 i6 where
    r1: "read_times_types w mem (st, 0) = Inr (st1, i1)" and
    r2: "read_type_records mem (st1, i1) = Inr (st2, i2)" and
    r3: "read_designations mem (st2, i2) = Inr (st3, i3)" and
    r4: "read_leap_records w mem (st3, i3) = Inr (st4, i4)" and
    r5: "read_std_indicators mem (st4, i4) = Inr (st5, i5)" and
    r6: "read_ut_indicators mem (st5, i5) = Inr (st', i6)"
    unfolding read_data_block_at_def bindE_Inr_iff by fastforce
  note p1 = read_times_types_Inr [OF r1]
  note p2 = read_type_records_Inr [OF r2]
  note p3 = read_designations_Inr [OF r3]
  note p4 = read_leap_records_Inr [OF r4]
  note p5 = read_std_indicators_Inr [OF r5]
  note p6 = read_ut_indicators_Inr [OF r6]
  have k1: "keeps st st1" and k2: "keeps st1 st2" and k3: "keeps st2 st3"
    and k4: "keeps st3 st4" and k5: "keeps st4 st5" and k6: "keeps st5 st'"
    using p1 p2 p3 p4 p5 p6 by simp_all
  have k02: "keeps st st2" using k1 k2 by (rule keeps_trans)
  have k03: "keeps st st3" using k02 k3 by (rule keeps_trans)
  have k04: "keeps st st4" using k03 k4 by (rule keeps_trans)
  have k05: "keeps st st5" using k04 k5 by (rule keeps_trans)
  have k06: "keeps st st'" using k05 k6 by (rule keeps_trans)
  have k56: "keeps st5 st'" by (rule k6)
  have k46: "keeps st4 st'" using k5 k56 by (rule keeps_trans)
  have k36: "keeps st3 st'" using k4 k46 by (rule keeps_trans)
  have k26: "keeps st2 st'" using k3 k36 by (rule keeps_trans)
  have k16: "keeps st1 st'" using k2 k26 by (rule keeps_trans)
  note c1 = keeps_counts [OF k1] and c2 = keeps_counts [OF k02] and c3 = keeps_counts [OF k03]
    and c4 = keeps_counts [OF k04] and c5 = keeps_counts [OF k05] and c6 = keeps_counts [OF k06]
  have i1: "i1 = timecnt st * w + timecnt st" using p1 by simp
  have i2: "i2 = i1 + typecnt st * 6" using p2 c1 by simp
  have i3: "i3 = i2 + charcnt st" using p3 c2 by simp
  have i4: "i4 = i3 + leapcnt st * (w + 4)" using p4 c3 by simp
  have i5: "i5 = i4 + isstdcnt st" using p5 c4 by simp
  have b1: "0 < timecnt st \<longrightarrow> i1 \<le> length mem" using p1 i1 by simp
  have b2: "0 < typecnt st \<longrightarrow> i2 \<le> length mem" using p2 i2 c1 by simp
  have b4: "0 < leapcnt st \<longrightarrow> i4 \<le> length mem" using p4 i4 c3 by simp
  have b5: "0 < isstdcnt st \<longrightarrow> i5 \<le> length mem" using p5 i5 c4 by simp
  have b6: "0 < isutcnt st \<longrightarrow> i5 + isutcnt st \<le> length mem" using p6 c5 by simp
  have len: "required_len w st \<le> length mem"
    using b1 b2 b4 b5 b6 i1 i2 i3 i4 i5
    by (auto simp: required_len_def data_block_len_def)
  have a1: "0 < timecnt st \<longrightarrow> len_ok (transition_times st') (timecnt st) \<and>
                          len_ok (transition_types st') (timecnt st)"
    using p1 keeps_len_ok(1,2) [OF k16] c1 by simp
  have a2: "0 < typecnt st \<longrightarrow> len_ok (local_time_type_records st') (typecnt st)"
    using p2 keeps_len_ok(3) [OF k26] c1 c2 by simp
  have a4: "0 < leapcnt st \<longrightarrow> len_ok (leap_seconds_records st') (leapcnt st)"
    using p4 keeps_len_ok(4) [OF k46] c3 c4 by simp
  have a5: "0 < isstdcnt st \<longrightarrow> len_ok (standard_wall_indicators st') (isstdcnt st)"
    using p5 keeps_len_ok(5) [OF k56] c4 c5 by simp
  have a6: "0 < isutcnt st \<longrightarrow> len_ok (ut_local_indicators st') (isutcnt st)"
    using p6 c5 by simp
  have "arrays_ok st'"
    unfolding arrays_ok_def using a1 a2 a4 a5 a6 c6 by simp
  with len k06 show ?thesis by simp
qed

lemma read_data_block_at_ok:
  assumes "required_len w st \<le> length mem"
  shows "\<exists>st'. read_data_block_at w mem st = Inr st'"
proof -
  let ?i1 = "timecnt st * w + timecnt st"
  let ?i2 = "?i1 + typecnt st * 6"
  let ?i3 = "?i2 + charcnt st"
  let ?i4 = "?i3 + leapcnt st * (w + 4)"
  let ?i5 = "?i4 + isstdcnt st"
  from assms have b1: "timecnt st = 0 \<or> ?i1 \<le> length mem"
    and b2: "typecnt st = 0 \<or> ?i2 \<le> length mem"
    and b4: "leapcnt st = 0 \<or> ?i4 \<le> length mem"
    and b5: "isstdcnt st = 0 \<or> ?i5 \<le> length mem"
    and b6: "isutcnt st = 0 \<or> ?i5 + isutcnt st \<le> length mem"
    by (auto simp: required_len_def data_block_len_def split: if_splits)
  from read_times_types_ok [OF b1] obtain st1 where
    r1: "read_times_types w mem (st, 0) = Inr (st1, ?i1)" by blast
  note c1 = keeps_counts [OF conjunct1 [OF conjunct2 [OF read_times_types_Inr [OF r1]]]]
  from b2 c1 have "typecnt st1 = 0 \<or> ?i1 + typecnt st1 * 6 \<le> length mem" by simp
  from read_type_records_ok [OF this] c1 obtain st2 where
    r2: "read_type_records mem (st1, ?i1) = Inr (st2, ?i2)" by auto
  note c2 = keeps_counts [OF conjunct1 [OF conjunct2 [OF read_type_records_Inr [OF r2]]]]
  from read_designations_ok [of mem st2 ?i2] c1 c2 obtain st3 where
    r3: "read_designations mem (st2, ?i2) = Inr (st3, ?i3)" by auto
  note c3 = keeps_counts [OF conjunct1 [OF conjunct2 [OF read_designations_Inr [OF r3]]]]
  from b4 c1 c2 c3 have "leapcnt st3 = 0 \<or> ?i3 + leapcnt st3 * (w + 4) \<le> length mem" by simp
  from read_leap_records_ok [OF this] c1 c2 c3 obtain st4 where
    r4: "read_leap_records w mem (st3, ?i3) = Inr (st4, ?i4)" by auto
  note c4 = keeps_counts [OF conjunct1 [OF conjunct2 [OF read_leap_records_Inr [OF r4]]]]
  from b5 c1 c2 c3 c4 have "isstdcnt st4 = 0 \<or> ?i4 + isstdcnt st4 \<le> length mem" by simp
  from read_std_indicators_ok [OF this] c1 c2 c3 c4 obtain st5 where
    r5: "read_std_indicators mem (st4, ?i4) = Inr (st5, ?i5)" by auto
  note c5 = keeps_counts [OF conjunct1 [OF conjunct2 [OF read_std_indicators_Inr [OF r5]]]]
  from b6 c1 c2 c3 c4 c5 have "isutcnt st5 = 0 \<or> ?i5 + isutcnt st5 \<le> length mem" by simp
  from read_ut_indicators_ok [OF this] obtain st6 where
    r6: "read_ut_indicators mem (st5, ?i5) = Inr (st6, ?i5)" by blast
  show ?thesis
    unfolding read_data_block_at_def by (simp add: r1 r2 r3 r4 r5 r6)
qed

lemma read_data_block_at_short:
  assumes "length mem < required_len w st"
  shows "read_data_block_at w mem st = Inl StructError"
proof (cases "read_data_block_at w mem st")
  case (Inl e)
  with read_data_block_at_Inl [OF Inl] show ?thesis by simp
next
  case (Inr st')
  from read_data_block_at_Inr [OF Inr] assms show ?thesis by simp
qed

section \<open>The shape of \<open>read\<close>\<close>

lemma read_header_Inr:
  assumes "read_header mem st = Inr st'"
  shows "length mem = 44 \<and> pyslice mem 0 4 = TZif \<and>
         (version st' = PyBytes [0x32] \<or> version st' = PyBytes [0x33]) \<and>
         version st' = PyBytes (pyslice mem 4 5) \<and>
         (isutcnt st' = 0 \<or> isutcnt st' = typecnt st') \<and>
         (isstdcnt st' = 0 \<or> isstdcnt st' = typecnt st')"
  using assms by (auto simp: read_header_def Let_def split: if_splits)

lemma read_header_arrays:
  assumes "read_header mem st = Inr st'"
  shows "transition_times st' = transition_times st \<and>
         transition_types st' = transition_types st \<and>
         local_time_type_records st' = local_time_type_records st \<and>
         time_zone_designations st' = time_zone_designations st \<and>
         leap_seconds_records st' = leap_seconds_records st \<and>
         standard_wall_indicators st' = standard_wall_indicators st \<and>
         ut_local_indicators st' = ut_local_indicators st \<and>
         tz_strings st' = tz_strings st"
  using assms by (auto simp: read_header_def Let_def split: if_splits)

lemma get_data_block_len_eq:
  "get_data_block_len st v = data_block_len (if v = PyInt 1 then 4 else 8) st"
  by (simp add: get_data_block_len_def data_block_len_def Let_def)

lemma read_after_header:
  assumes "read_header mem st = Inr st'"
  shows "version st' \<noteq> PyInt 0" and "version st' \<noteq> PyInt 1"
  using read_header_Inr [OF assms] by auto

lemma read_eq:
  "read buf st =
     (if length buf \<le> 44 then Inl (AssertionError 157)
      else bindE (read_header (pyslice buf 0 44) st)
        (\<lambda>st1. bindE (read_header (pyslice buf (44 + data_block_len 4 st1)
                                  (88 + data_block_len 4 st1)) st1)
        (\<lambda>st2. bindE (read_data_block_at 8
                         (pyslice buf (88 + data_block_len 4 st1)
                            (88 + data_block_len 4 st1 + data_block_len 8 st2)) st2)
        (\<lambda>st3. Inr (st3\<lparr>tz_strings :=
                  Some (drop (88 + data_block_len 4 st1 + data_block_len 8 st2) buf)\<rparr>)))))"
proof (cases "length buf \<le> 44")
  case True
  then show ?thesis by (simp add: read_def HEADER_LEN_def)
next
  case False
  show ?thesis
  proof (cases "read_header (pyslice buf 0 44) st")
    case (Inl e)
    with False show ?thesis by (simp add: read_def HEADER_LEN_def)
  next
    case (Inr st1)
    note v1 = read_after_header [OF Inr]
    let ?e1 = "44 + data_block_len 4 st1"
    show ?thesis
    proof (cases "read_header (pyslice buf ?e1 (88 + data_block_len 4 st1)) st1")
      case (Inl e)
      with False Inr v1 show ?thesis
        by (simp add: read_def HEADER_LEN_def get_data_block_len_eq add.commute add.left_commute)
    next
      case st2: (Inr st2)
      note v2 = read_after_header [OF st2]
      from False Inr v1 st2 v2 show ?thesis
        by (simp add: read_def HEADER_LEN_def get_data_block_len_eq read_data_block_def
            read_footer_def Let_def add.commute add.left_commute)
    qed
  qed
qed

lemma len_of_len_ok: "len_ok x n \<Longrightarrow> len_of x = n"
  by (auto simp: len_ok_def len_of_def split: option.splits)

lemma pyslice_prefix: "length xs = n \<Longrightarrow> pyslice (xs @ ys) 0 n = xs"
  by (simp add: pyslice_def)

lemma pyslice_middle:
  "length xs = a \<Longrightarrow> b = a + length ys \<Longrightarrow> pyslice (xs @ ys @ zs) a b = ys"
  by (simp add: pyslice_def)

lemma pyslice_after:
  "length xs = a \<Longrightarrow> pyslice (xs @ ys) (a + i) (a + j) = pyslice ys i j"
  by (simp add: pyslice_def)

lemma drop_after: "length xs = a \<Longrightarrow> drop (a + i) (xs @ ys) = drop i ys"
  by simp

lemma read_layout:
  assumes h1: "read_header h1 st = Inr st1"
    and b1: "length b1 = data_block_len 4 st1"
    and h2: "read_header h2 st1 = Inr st2"
    and b2: "length b2 = data_block_len 8 st2"
    and d: "read_data_block_at 8 b2 st2 = Inr st3"
  shows "read (h1 @ b1 @ h2 @ b2 @ foot) st = Inr (st3\<lparr>tz_strings := Some foot\<rparr>)"
proof -
  let ?buf = "h1 @ b1 @ h2 @ b2 @ foot"
  let ?L1 = "data_block_len 4 st1"
  let ?L2 = "data_block_len 8 st2"
  from read_header_Inr [OF h1] have l1: "length h1 = 44" by simp
  from read_header_Inr [OF h2] have l2: "length h2 = 44" by simp
  have long: "\<not> length ?buf \<le> 44" using l1 l2 by simp
  have s1: "pyslice ?buf 0 44 = h1" using l1 by (rule pyslice_prefix)
  have s2: "pyslice ?buf (44 + ?L1) (88 + ?L1) = h2"
    using pyslice_middle [of "h1 @ b1" "44 + ?L1" "88 + ?L1" h2 "b2 @ foot"] l1 l2 b1
    by simp
  have s3: "pyslice ?buf (88 + ?L1) (88 + ?L1 + ?L2) = b2"
    using pyslice_middle [of "h1 @ b1 @ h2" "88 + ?L1" "88 + ?L1 + ?L2" b2 foot] l1 l2 b1 b2
    by simp
  have s4: "drop (88 + ?L1 + ?L2) ?buf = foot"
    using l1 l2 b1 b2 by simp
  show ?thesis
    by (simp only: read_eq long if_False s1 h1 bindE_Inr s2 h2 s3 d s4)
qed

lemma pyslice_cong_drop:
  assumes "drop k xs = drop k ys" "k \<le> a"
  shows "pyslice xs a b = pyslice ys a b"
proof -
  from assms(2) have "drop a xs = drop (a - k) (drop k xs)" "drop a ys = drop (a - k) (drop k ys)"
    by simp_all
  with assms(1) show ?thesis by (simp add: pyslice_def)
qed

lemma drop_cong_drop:
  assumes "drop k xs = drop k ys" "k \<le> a"
  shows "drop a xs = drop a ys"
proof -
  from assms(2) have "drop a xs = drop (a - k) (drop k xs)" "drop a ys = drop (a - k) (drop k ys)"
    by simp_all
  with assms(1) show ?thesis by simp
qed

lemma read_ignores_first_block:
  assumes h1: "read_header (pyslice buf 0 44) st = Inr st1"
    and len: "length buf' = length buf"
    and pre: "take 44 buf' = take 44 buf"
    and post: "drop (44 + data_block_len 4 st1) buf' = drop (44 + data_block_len 4 st1) buf"
  shows "read buf' st = read buf st"
proof -
  let ?L1 = "data_block_len 4 st1"
  have p: "pyslice buf' 0 44 = pyslice buf 0 44" using pre by (simp add: pyslice_def)
  have a: "pyslice buf' (44 + ?L1) (88 + ?L1) = pyslice buf (44 + ?L1) (88 + ?L1)"
    by (rule pyslice_cong_drop [OF post]) simp
  have b: "pyslice buf' (88 + ?L1) (88 + ?L1 + n) = pyslice buf (88 + ?L1) (88 + ?L1 + n)" for n
    by (rule pyslice_cong_drop [OF post]) simp
  have c: "drop (88 + ?L1 + n) buf' = drop (88 + ?L1 + n) buf" for n
    by (rule drop_cong_drop [OF post]) simp
  show ?thesis
    by (simp only: read_eq [of buf'] read_eq [of buf] len p h1 bindE_Inr a b c)
qed

lemma keeps_zero_counts: "keeps st st' \<Longrightarrow> zero_counts_untouched st st'"
  by (auto simp: keeps_def zero_counts_untouched_def)

lemma length_mk_header: "length (mk_header v a b c d e f) = 44"
  by (simp add: mk_header_def TZif_def be32_def)

section \<open>Reading the example files\<close>

lemma length_be32: "length (be32 n) = 4"
  by (simp add: be32_def)

lemma be_uint_be32: "n < 256 \<Longrightarrow> be_uint (be32 n) = n"
  by (simp add: be32_def be_uint_def unat_of_nat)

lemma read_header_mk_header:
  assumes "v = 0x32 \<or> v = 0x33" "nutc = 0 \<or> nutc = ntype" "nstd = 0 \<or> nstd = ntype"
    and "nutc < 256" "nstd < 256" "nleap < 256" "ntime < 256" "ntype < 256" "nchar < 256"
  shows "read_header (mk_header v nutc nstd nleap ntime ntype nchar) st =
           Inr (set_header v nutc nstd nleap ntime ntype nchar st)"
proof -
  let ?h = "mk_header v nutc nstd nleap ntime ntype nchar"
  have s: "pyslice ?h 0 4 = TZif" "pyslice ?h 4 5 = [v]"
    "pyslice ?h 20 24 = be32 nutc" "pyslice ?h 24 28 = be32 nstd"
    "pyslice ?h 28 32 = be32 nleap" "pyslice ?h 32 36 = be32 ntime"
    "pyslice ?h 36 40 = be32 ntype" "pyslice ?h 40 44 = be32 nchar"
    by (simp_all add: mk_header_def pyslice_def TZif_def length_be32)
  show ?thesis
    using assms
    by (simp add: read_header_def length_mk_header s be_uint_be32 set_header_def Let_def)
qed

lemma upt_2: "[0..<2] = [0, 1]"
  by (simp add: upt_rec)

lemma zone_data_block:
  "read_data_block_at 8 zone_b2 (set_header 0x32 0 0 0 2 1 1 (set_header 0x32 0 0 0 1 1 0 (TZInfo_init ''Zone'')))
     = Inr ((set_header 0x32 0 0 0 2 1 1 (TZInfo_init ''Zone''))
       \<lparr> transition_times := Some [5, 0], transition_types := Some [0, 7],
         local_time_type_records := Some [(3600, 1, 9)],
         time_zone_designations := Some [0x41] \<rparr>)"
  by (simp add: zone_b2_def set_header_def TZInfo_init_def read_data_block_at_def
      read_times_types_def read_type_records_def read_designations_def read_leap_records_def
      read_std_indicators_def read_ut_indicators_def unpack_signed_def unpack_B_def
      unpack_lBB_def be_sint_def be_uint_def pyslice_def upt_2)

lemma zone_file_read: "read zone_file (TZInfo_init ''Zone'') = Inr zone_doc"
proof -
  let ?st1 = "set_header 0x32 0 0 0 1 1 0 (TZInfo_init ''Zone'')"
  let ?st2 = "set_header 0x32 0 0 0 2 1 1 ?st1"
  have h1: "read_header zone_h1 (TZInfo_init ''Zone'') = Inr ?st1"
    unfolding zone_h1_def by (rule read_header_mk_header) simp_all
  have h2: "read_header zone_h2 ?st1 = Inr ?st2"
    unfolding zone_h2_def by (rule read_header_mk_header) simp_all
  have b1: "length zone_b1 = data_block_len 4 ?st1"
    by (simp add: zone_b1_def data_block_len_def set_header_def)
  have b2: "length zone_b2 = data_block_len 8 ?st2"
    by (simp add: zone_b2_def data_block_len_def set_header_def)
  from read_layout [OF h1 b1 h2 b2 zone_data_block, of zone_foot]
  show ?thesis
    by (simp add: zone_file_def zone_doc_def zone_foot_def)
qed

section \<open>The two-pass reading\<close>

lemma clear_arrays_same:
  "clear_arrays (st\<lparr>transition_times := a\<rparr>) = clear_arrays st"
  "clear_arrays (st\<lparr>transition_types := b\<rparr>) = clear_arrays st"
  "clear_arrays (st\<lparr>local_time_type_records := c\<rparr>) = clear_arrays st"
  "clear_arrays (st\<lparr>time_zone_designations := d\<rparr>) = clear_arrays st"
  "clear_arrays (st\<lparr>leap_seconds_records := e\<rparr>) = clear_arrays st"
  "clear_arrays (st\<lparr>standard_wall_indicators := f\<rparr>) = clear_arrays st"
  "clear_arrays (st\<lparr>ut_local_indicators := g\<rparr>) = clear_arrays st"
  by (simp_all add: clear_arrays_def)

lemma clear_arrays_fields:
  "version (clear_arrays st) = version st" "timecnt (clear_arrays st) = timecnt st"
  "typecnt (clear_arrays st) = typecnt st" "charcnt (clear_arrays st) = charcnt st"
  "leapcnt (clear_arrays st) = leapcnt st" "isstdcnt (clear_arrays st) = isstdcnt st"
  "isutcnt (clear_arrays st) = isutcnt st" "tz_strings (clear_arrays st) = tz_strings st"
  by (simp_all add: clear_arrays_def)

lemma no_arrays_clear: "no_arrays st \<Longrightarrow> clear_arrays st = st"
  by (rule TZInfo.equality) (simp_all add: clear_arrays_def no_arrays_def)

lemma blocks_clear:
  "read_times_types w mem (st, i) = Inr (st', i') \<Longrightarrow> clear_arrays st' = clear_arrays st"
  "read_type_records mem (st, i) = Inr (st', i') \<Longrightarrow> clear_arrays st' = clear_arrays st"
  "read_designations mem (st, i) = Inr (st', i') \<Longrightarrow> clear_arrays st' = clear_arrays st"
  "read_leap_records w mem (st, i) = Inr (st', i') \<Longrightarrow> clear_arrays st' = clear_arrays st"
  "read_std_indicators mem (st, i) = Inr (st', i') \<Longrightarrow> clear_arrays st' = clear_arrays st"
  "read_ut_indicators mem (st, i) = Inr (st', i') \<Longrightarrow> clear_arrays st' = clear_arrays st"
  by (auto simp: read_times_types_def read_type_records_def read_designations_def
      read_leap_records_def read_std_indicators_def read_ut_indicators_def
      bindE_Inr_iff Let_def clear_arrays_same split: if_splits)

lemma read_data_block_at_clear:
  assumes "read_data_block_at w mem st = Inr st'"
  shows "clear_arrays st' = clear_arrays st"
proof -
  from assms obtain st1 i1 st2 i2 st3 i3 st4 i4 st5 i5 i6 where
    r1: "read_times_types w mem (st, 0) = Inr (st1, i1)" and
    r2: "read_type_records mem (st1, i1) = Inr (st2, i2)" and
    r3: "read_designations mem (st2, i2) = Inr (st3, i3)" and
    r4: "read_leap_records w mem (st3, i3) = Inr (st4, i4)" and
    r5: "read_std_indicators mem (st4, i4) = Inr (st5, i5)" and
    r6: "read_ut_indicators mem (st5, i5) = Inr (st', i6)"
    unfolding read_data_block_at_def bindE_Inr_iff by fastforce
  from blocks_clear(1) [OF r1] blocks_clear(2) [OF r2] blocks_clear(3) [OF r3]
    blocks_clear(4) [OF r4] blocks_clear(5) [OF r5] blocks_clear(6) [OF r6]
  show ?thesis by simp
qed

lemma read_header_set:
  "read_header mem st = Inl e \<Longrightarrow> read_header mem st' = Inl e"
  "read_header mem st = Inr a \<Longrightarrow>
     read_header mem st' =
       Inr (st'\<lparr> version := version a, isutcnt := isutcnt a, isstdcnt := isstdcnt a,
                leapcnt := leapcnt a, timecnt := timecnt a, typecnt := typecnt a,
                charcnt := charcnt a \<rparr>)"
  by (auto simp: read_header_def Let_def split: if_splits)

lemma read_header_self:
  assumes "read_header mem st = Inr a"
  shows "a = st\<lparr> version := version a, isutcnt := isutcnt a, isstdcnt := isstdcnt a,
                leapcnt := leapcnt a, timecnt := timecnt a, typecnt := typecnt a,
                charcnt := charcnt a \<rparr>"
  using read_header_set(2) [OF assms, of st] assms by simp

lemma read_header_clear:
  assumes a: "read_header mem st = Inr a" and b: "read_header mem st' = Inr b"
    and c: "clear_arrays st' = clear_arrays st"
  shows "clear_arrays b = clear_arrays a"
proof -
  from read_header_set(2) [OF a, of st'] b
  have b': "b = st'\<lparr> version := version a, isutcnt := isutcnt a, isstdcnt := isstdcnt a,
                leapcnt := leapcnt a, timecnt := timecnt a, typecnt := typecnt a,
                charcnt := charcnt a \<rparr>" by simp
  note a' = read_header_self [OF a]
  have "clear_arrays b = (clear_arrays st')\<lparr> version := version a, isutcnt := isutcnt a,
      isstdcnt := isstdcnt a, leapcnt := leapcnt a, timecnt := timecnt a, typecnt := typecnt a,
      charcnt := charcnt a \<rparr>"
    by (subst b') (simp add: clear_arrays_def)
  also have "\<dots> = (clear_arrays st)\<lparr> version := version a, isutcnt := isutcnt a,
      isstdcnt := isstdcnt a, leapcnt := leapcnt a, timecnt := timecnt a, typecnt := typecnt a,
      charcnt := charcnt a \<rparr>"
    by (simp only: c)
  also have "\<dots> = clear_arrays a"
    by (subst (2) a') (simp add: clear_arrays_def)
  finally show ?thesis .
qed

lemma read_header_no_arrays:
  "read_header mem st = Inr a \<Longrightarrow> no_arrays st \<Longrightarrow> no_arrays a"
  using read_header_arrays [of mem st a] by (simp add: no_arrays_def)

lemma data_block_len_clear:
  "clear_arrays a = clear_arrays b \<Longrightarrow> data_block_len w a = data_block_len w b"
proof -
  assume e: "clear_arrays a = clear_arrays b"
  have "data_block_len w a = data_block_len w (clear_arrays a)"
    by (simp add: data_block_len_def clear_arrays_fields)
  also have "\<dots> = data_block_len w (clear_arrays b)" by (simp only: e)
  also have "\<dots> = data_block_len w b"
    by (simp add: data_block_len_def clear_arrays_fields)
  finally show ?thesis .
qed

lemma read_header_short: "length mem \<noteq> 44 \<Longrightarrow> read_header mem st = Inl StructError"
  by (simp add: read_header_def)

lemma read_two_pass_fresh:
  assumes f: "no_arrays st"
  shows "read buf st = read_two_pass buf st"
proof (cases "length buf \<le> 44")
  case True
  then show ?thesis by (simp add: read_eq read_two_pass_def HEADER_LEN_def)
next
  case long: False
  show ?thesis
  proof (cases "read_header (pyslice buf 0 44) st")
    case (Inl e)
    with long show ?thesis by (simp add: read_eq read_two_pass_def HEADER_LEN_def)
  next
    case st1: (Inr st1)
    let ?L1 = "data_block_len 4 st1"
    let ?R = "pyslice buf 44 (44 + ?L1)"
    let ?H = "pyslice buf (44 + ?L1) (88 + ?L1)"
    have n1: "no_arrays st1" using st1 f by (rule read_header_no_arrays)
    have c1: "clear_arrays st1 = st1" using n1 by (rule no_arrays_clear)
    note v1 = read_after_header(1) [OF st1]
    from read_header_Inr [OF st1] have v1': "version st1 \<noteq> PyBytes [0]" by auto
    have lhs: "read buf st =
      bindE (read_header ?H st1)
        (\<lambda>st2. bindE (read_data_block_at 8
                         (pyslice buf (88 + ?L1) (88 + ?L1 + data_block_len 8 st2)) st2)
        (\<lambda>st3. Inr (st3\<lparr>tz_strings := Some (drop (88 + ?L1 + data_block_len 8 st2) buf)\<rparr>)))"
      using long by (simp only: read_eq st1 bindE_Inr if_False)
    have rhs: "read_two_pass buf st =
      bindE (read_data_block_at 4 ?R st1)
        (\<lambda>st1'. if version st1' = PyInt 0 \<or> version st1' = PyBytes [0] then Inr st1'
           else bindE (read_header ?H st1')
             (\<lambda>st2. bindE (read_data_block_at 8
                         (pyslice buf (88 + ?L1) (88 + ?L1 + data_block_len 8 st2))
                         (clear_arrays st2))
             (\<lambda>st3. Inr (st3\<lparr>tz_strings := Some (drop (88 + ?L1 + data_block_len 8 st2) buf)\<rparr>))))"
      using long
      by (simp add: read_two_pass_def HEADER_LEN_def st1 decode_block_def c1 read_footer_def
          Let_def add.commute add.left_commute cong: if_cong)
    show ?thesis
    proof (cases "read_data_block_at 4 ?R st1")
      case (Inl e)
      from read_data_block_at_Inl [OF Inl] have e: "e = StructError" .
      have "length ?R < required_len 4 st1"
      proof (rule ccontr)
        assume "\<not> length ?R < required_len 4 st1"
        then have "required_len 4 st1 \<le> length ?R" by simp
        from read_data_block_at_ok [OF this] Inl show False by simp
      qed
      moreover have "required_len 4 st1 \<le> ?L1" by (simp add: required_len_def)
      ultimately have "length ?R < ?L1" by simp
      then have "length buf < 44 + ?L1" by (simp add: length_pyslice)
      then have "length ?H \<noteq> 44" by (simp add: length_pyslice)
      then have "read_header ?H st1 = Inl StructError" by (rule read_header_short)
      with Inl e show ?thesis by (simp only: lhs rhs bindE_Inl)
    next
      case st1': (Inr st1')
      from read_data_block_at_Inr [OF st1'] have k: "keeps st1 st1'" by simp
      from keeps_counts [OF k] v1 v1' have v: "\<not> (version st1' = PyInt 0 \<or> version st1' = PyBytes [0])"
        by simp
      have c: "clear_arrays st1' = clear_arrays st1" using st1' by (rule read_data_block_at_clear)
      have rhs': "read_two_pass buf st =
          bindE (read_header ?H st1')
             (\<lambda>st2. bindE (read_data_block_at 8
                         (pyslice buf (88 + ?L1) (88 + ?L1 + data_block_len 8 st2))
                         (clear_arrays st2))
             (\<lambda>st3. Inr (st3\<lparr>tz_strings := Some (drop (88 + ?L1 + data_block_len 8 st2) buf)\<rparr>)))"
        using v by (simp only: rhs st1' bindE_Inr if_False)
      show ?thesis
      proof (cases "read_header ?H st1")
        case (Inl e)
        from read_header_set(1) [OF Inl] have "read_header ?H st1' = Inl e" .
        with Inl show ?thesis by (simp only: lhs rhs' bindE_Inl)
      next
        case st2: (Inr st2)
        from read_header_set(2) [OF st2, of st1'] obtain st2' where
          st2': "read_header ?H st1' = Inr st2'" by blast
        have n2: "no_arrays st2" using st2 n1 by (rule read_header_no_arrays)
        have "clear_arrays st2' = clear_arrays st2" using st2 st2' c by (rule read_header_clear)
        then have c2: "clear_arrays st2' = st2" using no_arrays_clear [OF n2] by simp
        then have "clear_arrays st2' = clear_arrays st2" using no_arrays_clear [OF n2] by simp
        then have d: "data_block_len 8 st2' = data_block_len 8 st2" by (rule data_block_len_clear)
        show ?thesis by (simp only: lhs rhs' st2 st2' bindE_Inr d c2)
      qed
    qed
  qed
qed

lemma no_arrays_init: "no_arrays (TZInfo_init name)"
  by (simp add: no_arrays_def TZInfo_init_def)

lemma empty_block:
  "read_data_block_at 8 [] (set_header 0x32 0 0 0 0 0 0 st) = Inr (set_header 0x32 0 0 0 0 0 0 st)"
  by (simp add: set_header_def read_data_block_at_def read_times_types_def
      read_type_records_def read_designations_def read_leap_records_def
      read_std_indicators_def read_ut_indicators_def)

lemma decode_empty_block:
  "decode_block 8 [] (set_header 0x32 0 0 0 0 0 0 st) =
     Inr (clear_arrays (set_header 0x32 0 0 0 0 0 0 st))"
  by (simp add: decode_block_def clear_arrays_def set_header_def read_data_block_at_def
      read_times_types_def read_type_records_def read_designations_def read_leap_records_def
      read_std_indicators_def read_ut_indicators_def)

text \<open>The file with the empty second block, read into the object that holds \<open>zone_doc\<close>.\<close>

lemma skipped_file_read_again:
  "read skipped_file zone_doc =
     Inr ((set_header 0x32 0 0 0 0 0 0 zone_doc)\<lparr>tz_strings := Some zone_foot\<rparr>)"
proof -
  let ?st1 = "set_header 0x32 0 0 0 1 1 0 zone_doc"
  have h1: "read_header zone_h1 zone_doc = Inr ?st1"
    unfolding zone_h1_def by (rule read_header_mk_header) simp_all
  have b1: "length zone_b1 = data_block_len 4 ?st1"
    by (simp add: zone_b1_def data_block_len_def set_header_def)
  have h2: "read_header (mk_header 0x32 0 0 0 0 0 0) ?st1 = Inr (set_header 0x32 0 0 0 0 0 0 ?st1)"
    by (rule read_header_mk_header) simp_all
  have b2: "length ([] :: byte list) = data_block_len 8 (set_header 0x32 0 0 0 0 0 0 ?st1)"
    by (simp add: data_block_len_def set_header_def)
  from read_layout [OF h1 b1 h2 b2 empty_block, of zone_foot]
  show ?thesis by (simp add: skipped_file_def set_header_def)
qed

lemma read_two_pass_layout:
  assumes h1: "read_header h1 st = Inr st1"
    and b1: "length b1 = data_block_len 4 st1"
    and d1: "decode_block 4 b1 st1 = Inr st1'"
    and h2: "read_header h2 st1' = Inr st2"
    and b2: "length b2 = data_block_len 8 st2"
    and d2: "decode_block 8 b2 st2 = Inr st3"
  shows "read_two_pass (h1 @ b1 @ h2 @ b2 @ foot) st = Inr (st3\<lparr>tz_strings := Some foot\<rparr>)"
proof -
  let ?buf = "h1 @ b1 @ h2 @ b2 @ foot"
  let ?L1 = "data_block_len 4 st1"
  let ?L2 = "data_block_len 8 st2"
  from read_header_Inr [OF h1] have l1: "length h1 = 44"
    and v1: "version st1 = PyBytes [0x32] \<or> version st1 = PyBytes [0x33]" by auto
  from read_header_Inr [OF h2] have l2: "length h2 = 44" by simp
  from d1 have "read_data_block_at 4 b1 (clear_arrays st1) = Inr st1'"
    by (simp add: decode_block_def)
  from read_data_block_at_Inr [OF this] have k: "keeps (clear_arrays st1) st1'" by simp
  from keeps_counts [OF k] v1 have v: "version st1' \<noteq> PyInt 0" "version st1' \<noteq> PyBytes [0]"
    by (auto simp: clear_arrays_fields)
  have long: "length ?buf > 44" using l1 l2 by simp
  have s1: "pyslice ?buf 0 44 = h1" using l1 by (rule pyslice_prefix)
  have s1': "pyslice ?buf 44 (44 + ?L1) = b1"
    using pyslice_middle [of h1 44 "44 + ?L1" b1 "h2 @ b2 @ foot"] l1 b1 by simp
  have s2: "pyslice ?buf (44 + ?L1) (44 + ?L1 + 44) = h2"
    using pyslice_middle [of "h1 @ b1" "44 + ?L1" "44 + ?L1 + 44" h2 "b2 @ foot"] l1 l2 b1
    by simp
  have s3: "pyslice ?buf (44 + ?L1 + 44) (44 + ?L1 + 44 + ?L2) = b2"
    using pyslice_middle [of "h1 @ b1 @ h2" "44 + ?L1 + 44" "44 + ?L1 + 44 + ?L2" b2 foot]
      l1 l2 b1 b2 by simp
  have s4: "drop (44 + ?L1 + 44 + ?L2) ?buf = foot"
    using l1 l2 b1 b2 by simp
  show ?thesis
    using long v
    by (simp only: read_two_pass_def HEADER_LEN_def Let_def s1 h1 bindE_Inr s1' d1 s2 h2 s3 d2
        s4 read_footer_def) simp
qed

lemma skipped_file_two_pass_again:
  "read_two_pass skipped_file zone_doc =
     Inr (clear_arrays ((set_header 0x32 0 0 0 0 0 0 zone_doc)\<lparr>tz_strings := Some zone_foot\<rparr>))"
proof -
  let ?st1 = "set_header 0x32 0 0 0 1 1 0 zone_doc"
  let ?st1' = "(clear_arrays ?st1)\<lparr>transition_times := Some [7], transition_types := Some [0],
           local_time_type_records := Some [(3600, 0, 0)]\<rparr>"
  let ?st2 = "set_header 0x32 0 0 0 0 0 0 ?st1'"
  have h1: "read_header zone_h1 zone_doc = Inr ?st1"
    unfolding zone_h1_def by (rule read_header_mk_header) simp_all
  have b1: "length zone_b1 = data_block_len 4 ?st1"
    by (simp add: zone_b1_def data_block_len_def set_header_def)
  have d1: "decode_block 4 zone_b1 ?st1 = Inr ?st1'"
    by (simp add: decode_block_def clear_arrays_def zone_b1_def set_header_def
      read_data_block_at_def read_times_types_def read_type_records_def read_designations_def
      read_leap_records_def read_std_indicators_def read_ut_indicators_def unpack_signed_def
      unpack_B_def unpack_lBB_def be_sint_def be_uint_def pyslice_def)
  have h2: "read_header (mk_header 0x32 0 0 0 0 0 0) ?st1' = Inr ?st2"
    by (rule read_header_mk_header) simp_all
  have b2: "length ([] :: byte list) = data_block_len 8 ?st2"
    by (simp add: data_block_len_def set_header_def)
  have d2: "decode_block 8 [] ?st2 = Inr (clear_arrays ?st2)"
    by (rule decode_empty_block)
  from read_two_pass_layout [OF h1 b1 d1 h2 b2 d2, of zone_foot]
  show ?thesis by (simp add: skipped_file_def set_header_def clear_arrays_def)
qed

section \<open>Header and data-block length\<close>

text \<open>
  Claim C8. \<open>get_data_block_len\<close> returns
  \<open>timecnt*width + timecnt + typecnt*6 + charcnt + leapcnt*(width+4) + isstdcnt + isutcnt\<close>,
  with width 4 when the version argument is the integer 1 and width 8 for every other
  argument.
\<close>

theorem get_data_block_len_formula:
  "get_data_block_len st v =
     timecnt st * (if v = PyInt 1 then 4 else 8) + timecnt st + typecnt st * 6 + charcnt st
       + leapcnt st * ((if v = PyInt 1 then 4 else 8) + 4) + isstdcnt st + isutcnt st"
  by (simp add: get_data_block_len_def Let_def)

text \<open>
  The formula of claim C8 at the second header of the example file (two transitions, one
  record, one designation byte): 17 bytes at width 4, 25 bytes at width 8.
\<close>

theorem get_data_block_len_formula_witness:
  "get_data_block_len (set_header 0x32 0 0 0 2 1 1 (TZInfo_init ''Zone'')) (PyInt 1) = 17 \<and>
   get_data_block_len (set_header 0x32 0 0 0 2 1 1 (TZInfo_init ''Zone'')) (PyBytes [0x32]) = 25"
  using get_data_block_len_formula [of "set_header 0x32 0 0 0 2 1 1 (TZInfo_init ''Zone'')" "PyInt 1"]
    get_data_block_len_formula [of "set_header 0x32 0 0 0 2 1 1 (TZInfo_init ''Zone'')"
      "PyBytes [0x32]"]
  by (simp add: set_header_def)

text \<open>
  Claim C2, at the header of a version-1 file. The magic tag is right, the version byte is
  the legacy NUL byte and all counts are zero (so consistent), yet \<open>read_header\<close> fails at
  the version assertion of line 65: the unpacked version is the \<open>bytes\<close> object
  \<open>b'\x00'\<close>, which is not equal to the integer \<open>0\<close>.
\<close>

theorem read_header_rejects_legacy:
  "read_header legacy_header st = Inl (AssertionError 65)"
  by (simp add: read_header_def legacy_header_def mk_header_def TZif_def be32_def pyslice_def
      be_uint_def)

section \<open>The orchestrator\<close>

text \<open>
  Claim C1, for a new object. \<open>read\<close> parses the first 44 bytes as the first header,
  computes the length of the first data block with width 4 and steps over that region; it
  parses the next 44 bytes as the second header, decodes the second data block with
  8-byte time values and stores all bytes after it as the footer (first part; a header is
  accepted only with version \<open>b'2'\<close> or \<open>b'3'\<close>, so this is the only path of \<open>read\<close>
  that succeeds). The bytes of the first data block do not matter: two buffers that agree
  on the first header and from the end of the first data block on are read alike (second
  part). On an object without decoded arrays this gives, for every buffer, exactly the
  result of the two-pass reading, which decodes the first block as the legacy layout and
  then the second one, overwriting the decoded arrays (third part).
\<close>

theorem read_skips_first_block:
  "read buf st =
     (if length buf \<le> 44 then Inl (AssertionError 157)
      else bindE (read_header (pyslice buf 0 44) st)
        (\<lambda>st1. bindE (read_header (pyslice buf (44 + data_block_len 4 st1)
                                  (88 + data_block_len 4 st1)) st1)
        (\<lambda>st2. bindE (read_data_block_at 8
                         (pyslice buf (88 + data_block_len 4 st1)
                            (88 + data_block_len 4 st1 + data_block_len 8 st2)) st2)
        (\<lambda>st3. Inr (st3\<lparr>tz_strings :=
                  Some (drop (88 + data_block_len 4 st1 + data_block_len 8 st2) buf)\<rparr>))))) \<and>
   (\<forall>st1 buf'. read_header (pyslice buf 0 44) st = Inr st1 \<and> length buf' = length buf \<and>
        take 44 buf' = take 44 buf \<and>
        drop (44 + data_block_len 4 st1) buf' = drop (44 + data_block_len 4 st1) buf \<longrightarrow>
        read buf' st = read buf st) \<and>
   (no_arrays st \<longrightarrow> read buf st = read_two_pass buf st)"
  using read_eq [of buf st] read_ignores_first_block [of buf st] read_two_pass_fresh [of st buf]
  by blast

text \<open>
  The example file with its first data block replaced by eleven bytes \<open>0xFF\<close> is read
  as the example file is, and the two-pass reading of the example file into a new object
  gives the same document.
\<close>

theorem read_skips_first_block_witness:
  "read (zone_h1 @ replicate 11 255 @ zone_h2 @ zone_b2 @ zone_foot) (TZInfo_init ''Zone'')
     = Inr zone_doc \<and>
   read_two_pass zone_file (TZInfo_init ''Zone'') = Inr zone_doc"
proof -
  let ?st1 = "set_header 0x32 0 0 0 1 1 0 (TZInfo_init ''Zone'')"
  let ?buf' = "zone_h1 @ replicate 11 255 @ zone_h2 @ zone_b2 @ zone_foot"
  have l: "length zone_h1 = 44" by (simp add: zone_h1_def length_mk_header)
  have p: "pyslice zone_file 0 44 = zone_h1"
    unfolding zone_file_def using l by (rule pyslice_prefix)
  have h1: "read_header (pyslice zone_file 0 44) (TZInfo_init ''Zone'') = Inr ?st1"
    unfolding p zone_h1_def by (rule read_header_mk_header) simp_all
  have L1: "data_block_len 4 ?st1 = 11"
    by (simp add: data_block_len_def set_header_def)
  have a: "length ?buf' = length zone_file"
    by (simp add: zone_file_def zone_b1_def)
  have b: "take 44 ?buf' = take 44 zone_file"
    using l by (simp add: zone_file_def)
  have c: "drop (44 + data_block_len 4 ?st1) ?buf' = drop (44 + data_block_len 4 ?st1) zone_file"
    unfolding L1 using l by (simp add: zone_file_def zone_b1_def)
  note inst = read_skips_first_block [of zone_file "TZInfo_init ''Zone''"]
  from inst h1 a b c
  have "read ?buf' (TZInfo_init ''Zone'') = read zone_file (TZInfo_init ''Zone'')"
    by blast
  then have x: "read ?buf' (TZInfo_init ''Zone'') = Inr zone_doc"
    by (simp only: zone_file_read)
  from inst no_arrays_init [of "''Zone''"]
  have "read zone_file (TZInfo_init ''Zone'') = read_two_pass zone_file (TZInfo_init ''Zone'')"
    by blast
  then have y: "read_two_pass zone_file (TZInfo_init ''Zone'') = Inr zone_doc"
    by (simp only: zone_file_read)
  from x y show ?thesis by simp
qed

text \<open>
  Claim C1 as stated fails on an object that has been read into before. The object holds
  the document of the example file; the file read next has one transition in its first
  block and a second header without entries. The two-pass reading overwrites the decoded
  arrays and leaves none; \<open>read\<close> assigns nothing under the zero counts, so the two
  transition times of the earlier file stay in the document.
\<close>

theorem stale_arrays_not_overwritten:
  "read skipped_file zone_doc =
     Inr ((set_header 0x32 0 0 0 0 0 0 zone_doc)\<lparr>tz_strings := Some zone_foot\<rparr>) \<and>
   read_two_pass skipped_file zone_doc =
     Inr (clear_arrays ((set_header 0x32 0 0 0 0 0 0 zone_doc)\<lparr>tz_strings := Some zone_foot\<rparr>)) \<and>
   transition_times ((set_header 0x32 0 0 0 0 0 0 zone_doc)\<lparr>tz_strings := Some zone_foot\<rparr>)
     = Some [5, 0] \<and>
   transition_times
     (clear_arrays ((set_header 0x32 0 0 0 0 0 0 zone_doc)\<lparr>tz_strings := Some zone_foot\<rparr>))
     = None \<and>
   read skipped_file zone_doc \<noteq> read_two_pass skipped_file zone_doc"
proof -
  let ?X = "(set_header 0x32 0 0 0 0 0 0 zone_doc)\<lparr>tz_strings := Some zone_foot\<rparr>"
  have t: "transition_times ?X = Some [5, 0]"
    by (simp add: set_header_def zone_doc_def)
  have u: "transition_times (clear_arrays ?X) = None"
    by (simp add: clear_arrays_def)
  have "read skipped_file zone_doc \<noteq> read_two_pass skipped_file zone_doc"
  proof
    assume "read skipped_file zone_doc = read_two_pass skipped_file zone_doc"
    then have "?X = clear_arrays ?X"
      unfolding skipped_file_read_again skipped_file_two_pass_again by (simp only: sum.inject)
    then have "transition_times ?X = transition_times (clear_arrays ?X)"
      by (rule arg_cong)
    with t u show False by simp
  qed
  with skipped_file_read_again skipped_file_two_pass_again t u show ?thesis by blast
qed

section \<open>What a parsed document guarantees\<close>

text \<open>
  Claim C6, the part that holds. In every document that \<open>read\<close> builds,
  \<open>transition_times\<close> and \<open>transition_types\<close> have \<open>timecnt\<close> entries when \<open>timecnt\<close> is
  not zero and are left as they were before the call when it is zero, and likewise
  \<open>local_time_type_records\<close> with \<open>typecnt\<close>. So in every document built on a new
  object the three arrays have \<open>timecnt\<close>, \<open>timecnt\<close> and \<open>typecnt\<close> entries, an absent
  array (\<open>None\<close>) counting as empty.
\<close>

theorem read_array_lengths:
  assumes "read buf st = Inr doc"
  shows "(0 < timecnt doc \<longrightarrow> len_ok (transition_times doc) (timecnt doc) \<and>
                               len_ok (transition_types doc) (timecnt doc)) \<and>
         (0 < typecnt doc \<longrightarrow> len_ok (local_time_type_records doc) (typecnt doc)) \<and>
         (timecnt doc = 0 \<longrightarrow> transition_times doc = transition_times st \<and>
                               transition_types doc = transition_types st) \<and>
         (typecnt doc = 0 \<longrightarrow> local_time_type_records doc = local_time_type_records st) \<and>
         (no_arrays st \<longrightarrow>
            len_of (transition_times doc) = timecnt doc \<and>
            len_of (transition_types doc) = timecnt doc \<and>
            len_of (local_time_type_records doc) = typecnt doc)"
proof -
  from assms obtain st1 st2 st3 mem1 mem2 mem3 foot where
    h1: "read_header mem1 st = Inr st1" and
    h2: "read_header mem2 st1 = Inr st2" and
    d: "read_data_block_at 8 mem3 st2 = Inr st3" and
    doc: "doc = st3\<lparr>tz_strings := Some foot\<rparr>"
    by (auto simp: read_eq bindE_Inr_iff split: if_splits)
  note a1 = read_header_arrays [OF h1]
  note a2 = read_header_arrays [OF h2]
  have same: "transition_times st2 = transition_times st"
    "transition_types st2 = transition_types st"
    "local_time_type_records st2 = local_time_type_records st"
    using a1 a2 by simp_all
  from read_data_block_at_Inr [OF d] have k: "keeps st2 st3" and ok: "arrays_ok st3"
    by simp_all
  note c = keeps_counts [OF k]
  have p1: "0 < timecnt st3 \<longrightarrow> len_ok (transition_times st3) (timecnt st3) \<and>
                               len_ok (transition_types st3) (timecnt st3)"
    and p2: "0 < typecnt st3 \<longrightarrow> len_ok (local_time_type_records st3) (typecnt st3)"
    using ok by (simp_all add: arrays_ok_def)
  have z1: "timecnt st3 = 0 \<longrightarrow> transition_times st3 = transition_times st \<and>
                               transition_types st3 = transition_types st"
    and z2: "typecnt st3 = 0 \<longrightarrow> local_time_type_records st3 = local_time_type_records st"
    using k c same by (auto simp: keeps_def)
  have n: "len_of (transition_times st3) = timecnt st3 \<and>
           len_of (transition_types st3) = timecnt st3 \<and>
           len_of (local_time_type_records st3) = typecnt st3" if "no_arrays st"
  proof -
    from that have none: "transition_times st = None" "transition_types st = None"
      "local_time_type_records st = None" by (simp_all add: no_arrays_def)
    have t: "len_of (transition_times st3) = timecnt st3 \<and>
             len_of (transition_types st3) = timecnt st3"
    proof (cases "timecnt st3 = 0")
      case True
      with z1 none show ?thesis by (simp add: len_of_def)
    next
      case False
      with p1 show ?thesis by (simp add: len_of_len_ok)
    qed
    have r: "len_of (local_time_type_records st3) = typecnt st3"
    proof (cases "typecnt st3 = 0")
      case True
      with z2 none show ?thesis by (simp add: len_of_def)
    next
      case False
      with p2 show ?thesis by (simp add: len_of_len_ok)
    qed
    from t r show ?thesis by simp
  qed
  from p1 p2 z1 z2 n show ?thesis unfolding doc by simp
qed

text \<open>
  The lengths in the document read from the example file into a new object.
\<close>

theorem read_array_lengths_witness:
  "read zone_file (TZInfo_init ''Zone'') = Inr zone_doc \<and>
   len_of (transition_times zone_doc) = 2 \<and> len_of (transition_types zone_doc) = 2 \<and>
   len_of (local_time_type_records zone_doc) = 1"
proof -
  have c: "timecnt zone_doc = 2" "typecnt zone_doc = 1"
    by (simp_all add: zone_doc_def set_header_def)
  from read_array_lengths [OF zone_file_read] no_arrays_init [of "''Zone''"] zone_file_read c
  show ?thesis by simp
qed

text \<open>
  Claim C6 as stated fails. The example file is read without error, and its document has
  the transition times 5, 0 (not non-decreasing), the type index 7 with \<open>typecnt = 1\<close> and
  the designation index 9 with \<open>charcnt = 1\<close>: the parser checks neither the order nor the
  indices. And when the object that holds this document reads the file whose second
  header has no entries, the result has \<open>timecnt = 0\<close> and still the two transition times.
\<close>

theorem parsed_tables_unchecked:
  "read zone_file (TZInfo_init ''Zone'') = Inr zone_doc \<and>
   transition_times zone_doc = Some [5, 0] \<and> \<not> sorted [5, 0 :: int] \<and>
   transition_types zone_doc = Some [0, 7] \<and> typecnt zone_doc = 1 \<and>
   local_time_type_records zone_doc = Some [(3600, 1, 9)] \<and> charcnt zone_doc = 1 \<and>
   read skipped_file zone_doc =
     Inr ((set_header 0x32 0 0 0 0 0 0 zone_doc)\<lparr>tz_strings := Some zone_foot\<rparr>) \<and>
   timecnt ((set_header 0x32 0 0 0 0 0 0 zone_doc)\<lparr>tz_strings := Some zone_foot\<rparr>) = 0 \<and>
   transition_times ((set_header 0x32 0 0 0 0 0 0 zone_doc)\<lparr>tz_strings := Some zone_foot\<rparr>)
     = Some [5, 0]"
  by (simp add: zone_file_read skipped_file_read_again) (simp add: zone_doc_def set_header_def)

section \<open>Short data blocks\<close>

text \<open>
  Claim C7, as the code has it. With \<open>w\<close> the width that \<open>read_data_block\<close> chooses,
  the call fails with \<open>struct.error\<close> whenever the region is shorter than
  \<open>required_len w st\<close>, and succeeds on every region at least that long, leaving the
  attributes of each zero-count block as they were. \<open>required_len\<close> is the data-block
  length, except that designation bytes which no unpacked field follows do not count; so a
  full-length region is always read.
\<close>

theorem read_data_block_truncation:
  assumes w: "w = (if version st = PyInt 0 then 4 else 8)"
  shows "(length mem < required_len w st \<longrightarrow> read_data_block mem st = Inl StructError) \<and>
         (required_len w st \<le> length mem \<longrightarrow>
            (\<exists>st'. read_data_block mem st = Inr st' \<and> keeps st st' \<and>
                   zero_counts_untouched st st' \<and> arrays_ok st')) \<and>
         required_len w st \<le> data_block_len w st \<and>
         (charcnt st = 0 \<or> 0 < leapcnt st + isstdcnt st + isutcnt st \<longrightarrow>
            required_len w st = data_block_len w st)"
proof -
  have eq: "read_data_block mem st = read_data_block_at w mem st"
    by (simp add: read_data_block_def w)
  have short: "read_data_block mem st = Inl StructError" if "length mem < required_len w st"
    unfolding eq using that by (rule read_data_block_at_short)
  have full: "\<exists>st'. read_data_block mem st = Inr st' \<and> keeps st st' \<and>
                   zero_counts_untouched st st' \<and> arrays_ok st'"
    if "required_len w st \<le> length mem"
  proof -
    from read_data_block_at_ok [OF that] obtain st' where
      st': "read_data_block_at w mem st = Inr st'" by blast
    from read_data_block_at_Inr [OF st'] have "keeps st st'" "arrays_ok st'" by simp_all
    with st' keeps_zero_counts [of st st'] show ?thesis unfolding eq by blast
  qed
  have le: "required_len w st \<le> data_block_len w st"
    by (simp add: required_len_def)
  have same: "required_len w st = data_block_len w st"
    if "charcnt st = 0 \<or> 0 < leapcnt st + isstdcnt st + isutcnt st"
    using that by (auto simp: required_len_def)
  from short full le same show ?thesis by blast
qed

text \<open>
  After the second header of the example file: ten bytes are too few, the 25 bytes of the
  block are read and give two transition times.
\<close>

theorem read_data_block_truncation_witness:
  "read_data_block (take 10 zone_b2) (set_header 0x32 0 0 0 2 1 1 (TZInfo_init ''Zone''))
     = Inl StructError \<and>
   (\<exists>st'. read_data_block zone_b2 (set_header 0x32 0 0 0 2 1 1 (TZInfo_init ''Zone'')) = Inr st' \<and>
      len_ok (transition_times st') 2 \<and> leap_seconds_records st' = None)"
proof -
  let ?st = "set_header 0x32 0 0 0 2 1 1 (TZInfo_init ''Zone'')"
  have w: "(8 :: nat) = (if version ?st = PyInt 0 then 4 else 8)"
    by (simp add: set_header_def)
  have r: "required_len 8 ?st = 24"
    by (simp add: required_len_def data_block_len_def set_header_def)
  have l: "length (take 10 zone_b2) < 24" "24 \<le> length zone_b2"
    by (simp_all add: zone_b2_def)
  have c: "timecnt ?st = 2" "leapcnt ?st = 0" "leap_seconds_records ?st = None"
    by (simp_all add: set_header_def TZInfo_init_def)
  from read_data_block_truncation [OF w, of "take 10 zone_b2"] l(1)
  have a: "read_data_block (take 10 zone_b2) ?st = Inl StructError"
    unfolding r by blast
  from read_data_block_truncation [OF w, of zone_b2] l(2) obtain st' where
    st': "read_data_block zone_b2 ?st = Inr st'" "keeps ?st st'"
      "zero_counts_untouched ?st st'" "arrays_ok st'"
    unfolding r by blast
  from st'(2) c have "timecnt st' = 2" by (simp add: keeps_def)
  with st'(4) have "len_ok (transition_times st') 2" by (simp add: arrays_ok_def)
  moreover from st'(3) c have "leap_seconds_records st' = None"
    by (simp add: zero_counts_untouched_def)
  ultimately show ?thesis using a st'(1) by blast
qed

text \<open>
  Claim C7 as stated fails. The header announces four designation bytes; the region is
  empty, shorter than the data-block length 4, and \<open>read_data_block\<close> returns normally
  with an empty designation block.
\<close>

theorem designations_not_checked:
  "length ([] :: byte list) < data_block_len 8 desig_only \<and>
   version desig_only \<noteq> PyInt 0 \<and>
   read_data_block [] desig_only = Inr (desig_only\<lparr>time_zone_designations := Some []\<rparr>)"
  by (simp add: desig_only_def set_header_def data_block_len_def read_data_block_def
      read_data_block_at_def read_times_types_def read_type_records_def read_designations_def
      read_leap_records_def read_std_indicators_def read_ut_indicators_def pyslice_def)

section \<open>The transition search\<close>

lemma py_index_nat: "k < length xs \<Longrightarrow> py_index xs (int k) = Inr (xs ! k)"
  by (simp add: py_index_def)

lemma py_index_last: "0 < length xs \<Longrightarrow> py_index xs (int (length xs) - 1) = Inr (xs ! (length xs - 1))"
  by (simp add: py_index_def nat_diff_distrib')

lemma py_index_no_recursion: "py_index xs i \<noteq> Inl RecursionError"
  by (simp add: py_index_def Let_def)

lemma trunc_half_nat: "trunc_half (int b + int e) = int ((b + e) div 2)"
  by (simp add: trunc_half_def zdiv_int)

text \<open>One unfolding of the search inside a well-formed table, past the two range tests.\<close>

lemma search_step:
  assumes ts: "transition_times st = Some ts" "length ts = timecnt st"
    and range: "ts ! 0 \<le> t" "t < ts ! (timecnt st - 1)"
    and be: "b \<le> e" "e < timecnt st"
  shows "search_transition_index (Suc d) st t (int b) (int e) =
     (if b + 1 = e then (if t < ts ! e then Inr (int b) else Inr (int e))
      else if b = e then Inr (int b)
      else if t < ts ! ((b + e) div 2)
        then search_transition_index d st t (int b) (int ((b + e) div 2) - 1)
      else if t > ts ! ((b + e) div 2)
        then search_transition_index d st t (int ((b + e) div 2)) (int e)
      else Inr (int ((b + e) div 2)))"
proof -
  from be ts have n: "0 < length ts" by simp
  have last: "py_index ts (int (timecnt st) - 1) = Inr (ts ! (timecnt st - 1))"
    using py_index_last [OF n] ts by simp
  have first: "py_index ts 0 = Inr (ts ! 0)"
    using py_index_nat [of 0 ts] n by simp
  have e: "py_index ts (int e) = Inr (ts ! e)"
    using be ts by (simp add: py_index_nat)
  have "(b + e) div 2 < length ts" using be ts by simp
  then have mid: "py_index ts (int ((b + e) div 2)) = Inr (ts ! ((b + e) div 2))"
    by (rule py_index_nat)
  have eq1: "(int b + 1 = int e) = (b + 1 = e)" by linarith
  show ?thesis
    using range
    by (simp add: search_transition_index.simps(2) ts last first e mid trunc_half_nat eq1
        Let_def del: of_nat_add)
qed

lemma search_small:
  assumes ts: "transition_times st = Some ts" "length ts = timecnt st"
    and range: "ts ! 0 \<le> t" "t < ts ! (timecnt st - 1)"
    and be: "b \<le> e" "e < timecnt st" "e \<le> b + 1"
    and lo: "ts ! b \<le> t"
    and hi: "e + 1 < timecnt st \<longrightarrow> t < ts ! (e + 1)"
  shows "\<exists>i. search_transition_index (Suc d) st t (int b) (int e) = Inr (int i) \<and>
             b \<le> i \<and> i \<le> e \<and> ts ! i \<le> t \<and> i + 1 < timecnt st \<and>
             (t < ts ! (i + 1) \<or> t = ts ! i)"
proof -
  note step = search_step [OF ts range be(1,2), of d]
  have e_not_last: "ts ! e \<le> t \<Longrightarrow> e + 1 < timecnt st"
  proof (rule ccontr)
    assume le: "ts ! e \<le> t" and "\<not> e + 1 < timecnt st"
    with be have "e = timecnt st - 1" by simp
    with le range show False by simp
  qed
  show ?thesis
  proof (cases "b = e")
    case True
    with lo have "ts ! e \<le> t" by simp
    from e_not_last [OF this] hi True lo step show ?thesis by auto
  next
    case False
    with be have be1: "b + 1 = e" by simp
    show ?thesis
    proof (cases "t < ts ! e")
      case True
      with be1 step lo be show ?thesis by auto
    next
      case False
      then have le: "ts ! e \<le> t" by simp
      from e_not_last [OF le] hi le False be1 step show ?thesis by auto
    qed
  qed
qed

lemma search_core:
  assumes ts: "transition_times st = Some ts" "length ts = timecnt st"
    and range: "ts ! 0 \<le> t" "t < ts ! (timecnt st - 1)"
  shows "b \<le> e \<Longrightarrow> e < timecnt st \<Longrightarrow> ts ! b \<le> t \<Longrightarrow>
         (e + 1 < timecnt st \<longrightarrow> t < ts ! (e + 1)) \<Longrightarrow> e - b \<le> 2 ^ f \<Longrightarrow>
         \<exists>i. search_transition_index (Suc f) st t (int b) (int e) = Inr (int i) \<and>
             b \<le> i \<and> i \<le> e \<and> ts ! i \<le> t \<and> i + 1 < timecnt st \<and>
             (t < ts ! (i + 1) \<or> t = ts ! i)"
proof (induction f arbitrary: b e)
  case 0
  then have "e \<le> b + 1" by simp
  from search_small [OF ts range "0.prems"(1,2) this "0.prems"(3,4)] show ?case .
next
  case (Suc f)
  show ?case
  proof (cases "e \<le> b + 1")
    case True
    from search_small [OF ts range Suc.prems(1,2) True Suc.prems(3,4)] show ?thesis .
  next
    case False
    let ?mid = "(b + e) div 2"
    from False have far: "b + 2 \<le> e" by simp
    then have mid: "b < ?mid" "?mid < e" by auto
    from far have ne: "b + 1 \<noteq> e" "b \<noteq> e" by auto
    note step = search_step [OF ts range Suc.prems(1,2), of "Suc f"]
    consider (less) "t < ts ! ?mid" | (greater) "ts ! ?mid < t" | (equal) "t = ts ! ?mid"
      by linarith
    then show ?thesis
    proof cases
      case less
      have conv: "int ?mid - 1 = int (?mid - 1)" using mid by simp
      have 1: "b \<le> ?mid - 1" using mid by simp
      have 2: "?mid - 1 < timecnt st" using mid Suc.prems(2) by simp
      have 3: "?mid - 1 + 1 < timecnt st \<longrightarrow> t < ts ! (?mid - 1 + 1)" using mid less by simp
      have 4: "?mid - 1 - b \<le> 2 ^ f" using Suc.prems(5) mid by simp
      from Suc.IH [OF 1 2 Suc.prems(3) 3 4] obtain i where
        i: "search_transition_index (Suc f) st t (int b) (int (?mid - 1)) = Inr (int i)"
          "b \<le> i" "i \<le> ?mid - 1" "ts ! i \<le> t" "i + 1 < timecnt st"
          "t < ts ! (i + 1) \<or> t = ts ! i"
        by blast
      from i(1) have i1: "search_transition_index (Suc f) st t (int b) (int ?mid - 1) = Inr (int i)"
        by (simp only: conv)
      have "search_transition_index (Suc (Suc f)) st t (int b) (int e) = Inr (int i)"
        using ne less by (simp only: step i1 if_True if_False)
      moreover have "i \<le> e" using i(3) mid by simp
      ultimately show ?thesis using i by blast
    next
      case greater
      have 1: "?mid \<le> e" using mid by simp
      have 3: "ts ! ?mid \<le> t" using greater by simp
      have 4: "e - ?mid \<le> 2 ^ f" using Suc.prems(5) mid by simp
      from Suc.IH [OF 1 Suc.prems(2) 3 Suc.prems(4) 4] obtain i where
        i: "search_transition_index (Suc f) st t (int ?mid) (int e) = Inr (int i)"
          "?mid \<le> i" "i \<le> e" "ts ! i \<le> t" "i + 1 < timecnt st"
          "t < ts ! (i + 1) \<or> t = ts ! i"
        by blast
      have ng: "\<not> t < ts ! ?mid" using greater by simp
      have "search_transition_index (Suc (Suc f)) st t (int b) (int e) = Inr (int i)"
        using ne ng greater by (simp only: step i(1) if_True if_False)
      moreover have "b \<le> i" using i(2) mid by simp
      ultimately show ?thesis using i by blast
    next
      case equal
      have ng: "\<not> t < ts ! ?mid" "\<not> ts ! ?mid < t" using equal by simp_all
      have "search_transition_index (Suc (Suc f)) st t (int b) (int e) = Inr (int ?mid)"
        using ne ng by (simp only: step if_True if_False)
      moreover have "?mid + 1 < timecnt st" using mid Suc.prems(2) by simp
      ultimately show ?thesis using mid equal by (intro exI [of _ ?mid]) simp
    qed
  qed
qed

lemma search_out_of_depth:
  assumes "search_transition_index (Suc d) st t (int b) (int e) = Inl RecursionError" and "b \<le> e"
  shows "b + 2 \<le> e \<and>
         (search_transition_index d st t (int b) (int ((b + e) div 2) - 1) = Inl RecursionError \<or>
          search_transition_index d st t (int ((b + e) div 2)) (int e) = Inl RecursionError)"
proof -
  have eq1: "(int b + 1 = int e) = (b + 1 = e)" by linarith
  from assms show ?thesis
    by (auto simp: search_transition_index.simps(2) bindE_Inl_iff py_index_no_recursion
        trunc_half_nat eq1 Let_def simp del: of_nat_add split: option.splits if_splits)
qed

lemma search_terminates:
  "b \<le> e \<Longrightarrow> e - b \<le> 2 ^ f \<Longrightarrow>
   search_transition_index (Suc f) st t (int b) (int e) \<noteq> Inl RecursionError"
proof (induction f arbitrary: b e)
  case 0
  show ?case
  proof
    assume "search_transition_index (Suc 0) st t (int b) (int e) = Inl RecursionError"
    from search_out_of_depth [OF this "0.prems"(1), THEN conjunct1] "0.prems"(2)
    show False by simp
  qed
next
  case (Suc f)
  show ?case
  proof
    let ?mid = "(b + e) div 2"
    assume "search_transition_index (Suc (Suc f)) st t (int b) (int e) = Inl RecursionError"
    from search_out_of_depth [OF this Suc.prems(1)] have far: "b + 2 \<le> e"
      and rec: "search_transition_index (Suc f) st t (int b) (int ?mid - 1) = Inl RecursionError \<or>
          search_transition_index (Suc f) st t (int ?mid) (int e) = Inl RecursionError"
      by simp_all
    from far have mid: "b < ?mid" "?mid < e" by auto
    have conv: "int ?mid - 1 = int (?mid - 1)" using mid by simp
    have l: "b \<le> ?mid - 1" "?mid - 1 - b \<le> 2 ^ f" using mid Suc.prems(2) by simp_all
    have r: "?mid \<le> e" "e - ?mid \<le> 2 ^ f" using mid Suc.prems(2) by simp_all
    from Suc.IH [OF l] have "search_transition_index (Suc f) st t (int b) (int ?mid - 1) \<noteq> Inl RecursionError"
      unfolding conv .
    moreover note Suc.IH [OF r]
    ultimately show False using rec by blast
  qed
qed

lemma depth_covers:
  assumes "floorlog 2 n < depth"
  shows "\<exists>f. depth = Suc f \<and> n - 1 \<le> 2 ^ f"
proof (cases "n = 0")
  case True
  with assms show ?thesis by (cases depth) simp_all
next
  case False
  from assms obtain f where f: "depth = Suc f" by (cases depth) simp_all
  from False have "n < 2 ^ floorlog 2 n" using floorlog_bounds [of n 2] by simp
  also from assms f have "(2::nat) ^ floorlog 2 n \<le> 2 ^ f" by (simp add: power_increasing)
  finally have "n - 1 \<le> 2 ^ f" by simp
  with f show ?thesis by blast
qed

lemma get_transition_index_terminates:
  assumes "floorlog 2 (timecnt st) < depth"
  shows "get_transition_index depth st t \<noteq> Inl RecursionError"
proof (cases "timecnt st = 0")
  case True
  then show ?thesis by (simp add: get_transition_index_def)
next
  case False
  from depth_covers [OF assms] obtain f where f: "depth = Suc f" "timecnt st - 1 \<le> 2 ^ f"
    by blast
  have conv: "int (timecnt st) - 1 = int (timecnt st - 1)" using False by simp
  from search_terminates [of 0 "timecnt st - 1" f st t] f
  have "search_transition_index (Suc f) st t 0 (int (timecnt st) - 1) \<noteq> Inl RecursionError"
    by (simp only: conv) simp
  with False f show ?thesis by (simp add: get_transition_index_def)
qed

text \<open>The three outcomes of the lookup on a table that has its \<open>timecnt\<close> entries.\<close>

lemma get_transition_index_last:
  assumes "transition_times st = Some ts" "length ts = timecnt st" "0 < timecnt st"
    and "ts ! (timecnt st - 1) \<le> t"
  shows "get_transition_index (Suc d) st t = Inr (int (timecnt st) - 1)"
  using assms py_index_last [of ts]
  by (simp add: get_transition_index_def search_transition_index.simps(2))

lemma get_transition_index_before:
  assumes "transition_times st = Some ts" "length ts = timecnt st" "0 < timecnt st"
    and "t < ts ! (timecnt st - 1)" "t < ts ! 0"
  shows "get_transition_index (Suc d) st t = Inr (- 1)"
  using assms py_index_last [of ts] py_index_nat [of 0 ts]
  by (simp add: get_transition_index_def search_transition_index.simps(2))

lemma get_transition_index_inside:
  assumes ts: "transition_times st = Some ts" "length ts = timecnt st" and n: "0 < timecnt st"
    and range: "ts ! 0 \<le> t" "t < ts ! (timecnt st - 1)"
    and depth: "floorlog 2 (timecnt st) < depth"
  shows "\<exists>i. get_transition_index depth st t = Inr (int i) \<and> ts ! i \<le> t \<and>
             i + 1 < timecnt st \<and> (t < ts ! (i + 1) \<or> t = ts ! i)"
proof -
  from depth_covers [OF depth] obtain f where f: "depth = Suc f" "timecnt st - 1 \<le> 2 ^ f"
    by blast
  have conv: "int (timecnt st) - 1 = int (timecnt st - 1)" using n by simp
  have pre: "0 \<le> timecnt st - 1" "timecnt st - 1 < timecnt st" "ts ! 0 \<le> t"
    "timecnt st - 1 + 1 < timecnt st \<longrightarrow> t < ts ! (timecnt st - 1 + 1)"
    "timecnt st - 1 - 0 \<le> 2 ^ f"
    using n f range by simp_all
  from search_core [OF ts range pre] obtain i where
    i: "search_transition_index (Suc f) st t (int 0) (int (timecnt st - 1)) = Inr (int i)"
      "ts ! i \<le> t" "i + 1 < timecnt st" "t < ts ! (i + 1) \<or> t = ts ! i"
    by blast
  from i(1) have "search_transition_index (Suc f) st t 0 (int (timecnt st) - 1) = Inr (int i)"
    by (simp only: conv [symmetric] int_ops(1))
  with i(2-4) have "\<exists>i. search_transition_index (Suc f) st t 0 (int (timecnt st) - 1) = Inr (int i) \<and>
      ts ! i \<le> t \<and> i + 1 < timecnt st \<and> (t < ts ! (i + 1) \<or> t = ts ! i)"
    by blast
  with n f show ?thesis by (auto simp: get_transition_index_def)
qed

lemma mk_zone_simps:
  "transition_times (mk_zone ts tys rs) = Some ts"
  "transition_types (mk_zone ts tys rs) = Some tys"
  "local_time_type_records (mk_zone ts tys rs) = Some rs"
  "timecnt (mk_zone ts tys rs) = length ts"
  "typecnt (mk_zone ts tys rs) = length rs"
  by (simp_all add: mk_zone_def)

lemma search_numeral:
  "search_transition_index (numeral k) st t b e =
     search_transition_index (Suc (pred_numeral k)) st t b e"
  by (simp add: numeral_eq_Suc)

lemma strict_nth_le:
  assumes "sorted_wrt (<) (ts :: int list)" "i < length ts" "j < length ts" "ts ! i \<le> ts ! j"
  shows "i \<le> j"
proof (rule ccontr)
  assume "\<not> i \<le> j"
  then have "j < i" by simp
  from sorted_wrt_nth_less [OF assms(1) this assms(2)] assms(4) show False by simp
qed

lemma strict_nth_mono:
  assumes "sorted_wrt (<) (ts :: int list)" "i \<le> j" "j < length ts"
  shows "ts ! i \<le> ts ! j"
proof (cases "i = j")
  case False
  with assms(2) have "i < j" by simp
  from sorted_wrt_nth_less [OF assms(1) this assms(3)] show ?thesis by simp
qed simp

text \<open>
  Claim C3, for strictly ascending tables. Let the table have its \<open>timecnt \<ge> 1\<close> entries,
  no two of them equal, and let the recursion depth allowed exceed \<open>floorlog 2 timecnt\<close>.
  A timestamp at or after the last transition gives \<open>timecnt - 1\<close>; a timestamp between
  the first and the last transition gives the largest index \<open>i\<close> with \<open>times[i] \<le> t\<close>,
  and \<open>t < times[i+1]\<close>; and the search for \<open>times[k]\<close> gives \<open>k\<close>.
\<close>

theorem get_transition_index_strictly_ascending:
  assumes ts: "transition_times st = Some ts" "length ts = timecnt st"
    and n: "0 < timecnt st"
    and asc: "sorted_wrt (<) ts"
    and depth: "floorlog 2 (timecnt st) < depth"
  shows "(ts ! (timecnt st - 1) \<le> t \<longrightarrow>
            get_transition_index depth st t = Inr (int (timecnt st) - 1)) \<and>
         (ts ! 0 \<le> t \<and> t < ts ! (timecnt st - 1) \<longrightarrow>
            (\<exists>i<timecnt st. get_transition_index depth st t = Inr (int i) \<and> ts ! i \<le> t \<and>
               (\<forall>j<timecnt st. ts ! j \<le> t \<longrightarrow> j \<le> i) \<and>
               (i + 1 < timecnt st \<longrightarrow> t < ts ! (i + 1)))) \<and>
         (\<forall>k<timecnt st. get_transition_index depth st (ts ! k) = Inr (int k))"
proof -
  from depth obtain d where d: "depth = Suc d" by (cases depth) simp_all
  have last: "get_transition_index depth st u = Inr (int (timecnt st) - 1)"
    if "ts ! (timecnt st - 1) \<le> u" for u
    using get_transition_index_last [OF ts n that] d by simp
  have inside: "\<exists>i<timecnt st. get_transition_index depth st u = Inr (int i) \<and> ts ! i \<le> u \<and>
               (\<forall>j<timecnt st. ts ! j \<le> u \<longrightarrow> j \<le> i) \<and>
               (i + 1 < timecnt st \<longrightarrow> u < ts ! (i + 1))"
    if range: "ts ! 0 \<le> u" "u < ts ! (timecnt st - 1)" for u
  proof -
    from get_transition_index_inside [OF ts n range depth] obtain i where
      i: "get_transition_index depth st u = Inr (int i)" "ts ! i \<le> u" "i + 1 < timecnt st"
        "u < ts ! (i + 1) \<or> u = ts ! i"
      by blast
    have "ts ! i < ts ! (i + 1)"
      using sorted_wrt_nth_less [OF asc, of i "i + 1"] i(3) ts by simp
    with i(4) have nxt: "u < ts ! (i + 1)" by auto
    have "j \<le> i" if j: "j < timecnt st" "ts ! j \<le> u" for j
    proof (rule ccontr)
      assume "\<not> j \<le> i"
      then have "i + 1 \<le> j" by simp
      from strict_nth_mono [OF asc this] j ts have "ts ! (i + 1) \<le> ts ! j" by simp
      with nxt j show False by simp
    qed
    with i nxt show ?thesis by auto
  qed
  have exact: "get_transition_index depth st (ts ! k) = Inr (int k)" if k: "k < timecnt st" for k
  proof (cases "k = timecnt st - 1")
    case True
    with last [of "ts ! k"] n show ?thesis by simp
  next
    case False
    with k have lt: "k < timecnt st - 1" by simp
    have r1: "ts ! 0 \<le> ts ! k" using strict_nth_mono [OF asc, of 0 k] k ts by simp
    have r2: "ts ! k < ts ! (timecnt st - 1)"
      using sorted_wrt_nth_less [OF asc lt] n ts by simp
    from inside [OF r1 r2] obtain i where
      i: "i < timecnt st" "get_transition_index depth st (ts ! k) = Inr (int i)"
        "ts ! i \<le> ts ! k" "\<forall>j<timecnt st. ts ! j \<le> ts ! k \<longrightarrow> j \<le> i"
      by blast
    from strict_nth_le [OF asc _ _ i(3)] i(1) k ts have "i \<le> k" by simp
    moreover from i(4) k have "k \<le> i" by simp
    ultimately show ?thesis using i(2) by simp
  qed
  from last inside exact show ?thesis by blast
qed

text \<open>
  Scenario A: the transitions are at -100 and 100.
\<close>

theorem get_transition_index_strictly_ascending_witness:
  "get_transition_index 3 scenario_A 150 = Inr 1 \<and>
   get_transition_index 3 scenario_A 50 = Inr 0 \<and>
   get_transition_index 3 scenario_A (- 100) = Inr 0"
proof -
  have fl: "floorlog 2 (timecnt scenario_A) < 3"
    by (simp add: scenario_A_def mk_zone_simps compute_floorlog)
  have h: "transition_times scenario_A = Some [- 100, 100]"
    "length [- 100, 100 :: int] = timecnt scenario_A" "0 < timecnt scenario_A"
    "sorted_wrt (<) [- 100, 100 :: int]"
    by (simp_all add: scenario_A_def mk_zone_simps)
  note inst = get_transition_index_strictly_ascending [OF h fl]
  have n: "timecnt scenario_A = 2" by (simp add: scenario_A_def mk_zone_simps)
  from inst [of 150] have a: "get_transition_index 3 scenario_A 150 = Inr 1"
    by (simp add: n)
  from inst [of 50] obtain i where i: "i < 2" "get_transition_index 3 scenario_A 50 = Inr (int i)"
    "[- 100, 100 :: int] ! i \<le> 50" "i + 1 < 2 \<longrightarrow> (50 :: int) < [- 100, 100] ! (i + 1)"
    "\<forall>j<2. [- 100, 100 :: int] ! j \<le> 50 \<longrightarrow> j \<le> i"
    by (auto simp: n)
  from i(1,3) have "i = 0" by (cases i) auto
  with i(2) have b: "get_transition_index 3 scenario_A 50 = Inr 0" by simp
  from inst [of 0] have "\<forall>k<timecnt scenario_A.
      get_transition_index 3 scenario_A ([- 100, 100] ! k) = Inr (int k)"
    by blast
  with n have "get_transition_index 3 scenario_A ([- 100, 100] ! 0) = Inr (int 0)"
    by (elim allE [of _ 0]) simp
  then have c: "get_transition_index 3 scenario_A (- 100) = Inr 0" by simp
  from a b c show ?thesis by simp
qed

text \<open>
  Claim C3 as stated fails on a non-decreasing table with equal times. In
  \<open>[0, 5, 5, 5, 10]\<close> the search for 5 stops at the midpoint 2, although index 3 holds a
  time \<open>\<le> 5\<close> as well; so the result is not the largest such index, and the search for
  \<open>times[3]\<close> does not give 3.
\<close>

theorem repeated_times_not_maximal:
  "sorted [0, 5, 5, 5, 10 :: int] \<and>
   transition_times repeated_times = Some [0, 5, 5, 5, 10] \<and> timecnt repeated_times = 5 \<and>
   get_transition_index 4 repeated_times 5 = Inr 2 \<and>
   [0, 5, 5, 5, 10 :: int] ! 3 \<le> 5 \<and>
   get_transition_index 4 repeated_times ([0, 5, 5, 5, 10] ! 3) \<noteq> Inr 3"
  by (simp add: repeated_times_def mk_zone_simps get_transition_index_def
      search_numeral search_transition_index.simps(2) py_index_def trunc_half_def
      del: Suc_numeral)

text \<open>
  Claim C9. A recursion depth above \<open>floorlog 2 timecnt\<close> (the number of binary digits of
  \<open>timecnt\<close>) is enough for every object and every timestamp: the search never runs out
  of depth, since each recursive call at least halves the distance between \<open>begin\<close> and
  \<open>end\<close>. On a table that has its \<open>timecnt\<close> entries the search returns \<open>-1\<close> or an
  index of the table.
\<close>

theorem search_depth_logarithmic:
  assumes depth: "floorlog 2 (timecnt st) < depth"
  shows "get_transition_index depth st t \<noteq> Inl RecursionError \<and>
         (transition_times st = Some ts \<and> length ts = timecnt st \<longrightarrow>
            (\<exists>i. get_transition_index depth st t = Inr i \<and> - 1 \<le> i \<and> i < int (timecnt st)))"
proof -
  have "\<exists>i. get_transition_index depth st t = Inr i \<and> - 1 \<le> i \<and> i < int (timecnt st)"
    if ts: "transition_times st = Some ts" "length ts = timecnt st"
  proof (cases "timecnt st = 0")
    case True
    then show ?thesis by (simp add: get_transition_index_def)
  next
    case False
    then have n: "0 < timecnt st" by simp
    from depth obtain d where d: "depth = Suc d" by (cases depth) simp_all
    consider (last) "ts ! (timecnt st - 1) \<le> t"
      | (before) "t < ts ! (timecnt st - 1)" "t < ts ! 0"
      | (inside) "ts ! 0 \<le> t" "t < ts ! (timecnt st - 1)"
      by linarith
    then show ?thesis
    proof cases
      case last
      from get_transition_index_last [OF ts n last, of d] d n show ?thesis by simp
    next
      case before
      from get_transition_index_before [OF ts n before, of d] d show ?thesis by simp
    next
      case inside
      from get_transition_index_inside [OF ts n inside depth] show ?thesis by auto
    qed
  qed
  with get_transition_index_terminates [OF depth] show ?thesis by blast
qed

text \<open>
  Five transitions: depth 4 is enough.
\<close>

theorem search_depth_logarithmic_witness:
  "floorlog 2 (timecnt repeated_times) < 4 \<and>
   get_transition_index 4 repeated_times 7 \<noteq> Inl RecursionError \<and>
   (\<exists>i. get_transition_index 4 repeated_times 7 = Inr i \<and> - 1 \<le> i \<and> i < 5)"
proof -
  have n: "timecnt repeated_times = 5" by (simp add: repeated_times_def mk_zone_simps)
  have fl: "floorlog 2 (timecnt repeated_times) < 4"
    unfolding n by (simp add: compute_floorlog)
  have ts: "transition_times repeated_times = Some [0, 5, 5, 5, 10] \<and>
     length [0, 5, 5, 5, 10 :: int] = timecnt repeated_times"
    by (simp add: repeated_times_def mk_zone_simps)
  from search_depth_logarithmic [OF fl, where t = 7 and ts = "[0, 5, 5, 5, 10]"] ts fl n show ?thesis
    by simp
qed

text \<open>
  Claim C10, with the condition the first test of the search adds. The lookup returns
  \<open>-1\<close> when \<open>timecnt = 0\<close>, and also when the table has its \<open>timecnt \<ge> 1\<close> entries and
  the timestamp is below both \<open>times[0]\<close> and \<open>times[timecnt-1]\<close> (on a non-decreasing
  table the second follows from the first). No index of the table equals \<open>-1\<close>.
\<close>

theorem get_transition_index_sentinel:
  assumes "0 < depth"
  shows "(timecnt st = 0 \<longrightarrow> get_transition_index depth st t = Inr (- 1)) \<and>
         (transition_times st = Some ts \<and> length ts = timecnt st \<and> 0 < timecnt st \<and>
          t < ts ! 0 \<and> t < ts ! (timecnt st - 1) \<longrightarrow>
            get_transition_index depth st t = Inr (- 1)) \<and>
         (\<forall>i<timecnt st. int i \<noteq> - 1)"
proof -
  from assms obtain d where d: "depth = Suc d" by (cases depth) simp_all
  have "get_transition_index depth st t = Inr (- 1)"
    if "transition_times st = Some ts" "length ts = timecnt st" "0 < timecnt st"
      "t < ts ! 0" "t < ts ! (timecnt st - 1)"
    using get_transition_index_before [OF that(1,2,3,5,4), of d] d by simp
  then show ?thesis by (simp add: get_transition_index_def)
qed

text \<open>
  A new object, and scenario A at a timestamp before the first transition.
\<close>

theorem get_transition_index_sentinel_witness:
  "get_transition_index 1 (TZInfo_init ''Zone'') 0 = Inr (- 1) \<and>
   get_transition_index 1 scenario_A (- 150) = Inr (- 1)"
proof -
  have h: "transition_times scenario_A = Some [- 100, 100] \<and>
     length [- 100, 100 :: int] = timecnt scenario_A \<and> 0 < timecnt scenario_A \<and>
     - 150 < [- 100, 100 :: int] ! 0 \<and> - 150 < [- 100, 100 :: int] ! (timecnt scenario_A - 1)"
    by (simp add: scenario_A_def mk_zone_simps)
  have z: "timecnt (TZInfo_init ''Zone'') = 0" by (simp add: TZInfo_init_def)
  have d: "0 < (1 :: nat)" by simp
  from get_transition_index_sentinel [OF d, where st = "TZInfo_init ''Zone''" and t = 0] z
  have a: "get_transition_index 1 (TZInfo_init ''Zone'') 0 = Inr (- 1)" by blast
  from get_transition_index_sentinel [OF d, where st = scenario_A and ts = "[- 100, 100]"
      and t = "- 150"] h
  have b: "get_transition_index 1 scenario_A (- 150) = Inr (- 1)" by blast
  from a b show ?thesis by simp
qed

text \<open>
  Claim C10 as stated fails on a table that is not in order. In \<open>[5, 0]\<close> the timestamp
  3 is below \<open>times[0]\<close>, but the test against the last entry comes first and the lookup
  returns 1.
\<close>

theorem descending_times_not_before_first:
  "transition_times descending_times = Some [5, 0] \<and> timecnt descending_times = 2 \<and>
   (3 :: int) < [5, 0] ! 0 \<and> get_transition_index 2 descending_times 3 = Inr 1"
  by (simp add: descending_times_def mk_zone_simps get_transition_index_def
      search_numeral search_transition_index.simps(2) py_index_def del: Suc_numeral)

lemma get_local_time_type_field_empty:
  assumes "timecnt st = 0" "0 \<le> column" "column \<le> 2"
  shows "get_local_time_type_field st i column = Inr 0"
  using assms
  by (simp add: get_local_time_type_field_def get_local_time_type_def
      LOCAL_TIME_TYPE_FIELD_UTOFF_def LOCAL_TIME_TYPE_FIELD_DESIG_IDX_def)

lemma get_local_time_type_field_before_first:
  assumes "0 < timecnt st" "0 \<le> column" "column \<le> 2"
  shows "get_local_time_type_field st (- 1) column = Inl (AssertionError 213)"
  using assms
  by (simp add: get_local_time_type_field_def get_local_time_type_def
      LOCAL_TIME_TYPE_FIELD_UTOFF_def LOCAL_TIME_TYPE_FIELD_DESIG_IDX_def)

text \<open>
  Claim C4, as the code has it. With \<open>timecnt = 0\<close> the three accessors return 0 for any
  index; with \<open>timecnt \<ge> 1\<close> and the index \<open>-1\<close> each of them fails at the assertion of
  line 213. No default record is involved.
\<close>

theorem sentinel_lookup_no_default_record:
  "(timecnt st = 0 \<longrightarrow>
      get_transition_offset st i = Inr 0 \<and> get_transition_isdst st i = Inr 0 \<and>
      get_transition_desig_index st i = Inr 0) \<and>
   (0 < timecnt st \<longrightarrow>
      get_transition_offset st (- 1) = Inl (AssertionError 213) \<and>
      get_transition_isdst st (- 1) = Inl (AssertionError 213) \<and>
      get_transition_desig_index st (- 1) = Inl (AssertionError 213))"
  by (simp add: get_transition_offset_def get_transition_isdst_def
      get_transition_desig_index_def LOCAL_TIME_TYPE_FIELD_UTOFF_def
      LOCAL_TIME_TYPE_FIELD_ISDST_def LOCAL_TIME_TYPE_FIELD_DESIG_IDX_def
      get_local_time_type_field_empty get_local_time_type_field_before_first)

text \<open>
  A new object and scenario A, at the index \<open>-1\<close>.
\<close>

theorem sentinel_lookup_no_default_record_witness:
  "get_transition_offset (TZInfo_init ''Zone'') (- 1) = Inr 0 \<and>
   get_transition_isdst (TZInfo_init ''Zone'') (- 1) = Inr 0 \<and>
   get_transition_desig_index (TZInfo_init ''Zone'') (- 1) = Inr 0 \<and>
   get_transition_offset scenario_A (- 1) = Inl (AssertionError 213) \<and>
   get_transition_isdst scenario_A (- 1) = Inl (AssertionError 213) \<and>
   get_transition_desig_index scenario_A (- 1) = Inl (AssertionError 213)"
proof -
  have z: "timecnt (TZInfo_init ''Zone'') = 0" by (simp add: TZInfo_init_def)
  have n: "0 < timecnt scenario_A" by (simp add: scenario_A_def mk_zone_simps)
  from sentinel_lookup_no_default_record [of "TZInfo_init ''Zone''" "- 1"] z
    sentinel_lookup_no_default_record [of scenario_A] n
  show ?thesis by simp
qed

text \<open>
  Claim C4 as stated fails. In scenario A the timestamp -150 is before the first
  transition and the lookup gives the sentinel \<open>-1\<close>; each accessor called with it raises
  instead of returning a field of a default record.
\<close>

theorem before_first_lookup_raises:
  "get_transition_index 3 scenario_A (- 150) = Inr (- 1) \<and>
   get_transition_offset scenario_A (- 1) = Inl (AssertionError 213) \<and>
   get_transition_isdst scenario_A (- 1) = Inl (AssertionError 213) \<and>
   get_transition_desig_index scenario_A (- 1) = Inl (AssertionError 213)"
  by (simp add: scenario_A_def mk_zone_simps get_transition_index_def
      search_numeral search_transition_index.simps(2) py_index_def
      get_transition_offset_def get_transition_isdst_def get_transition_desig_index_def
      get_local_time_type_field_def get_local_time_type_def
      LOCAL_TIME_TYPE_FIELD_UTOFF_def LOCAL_TIME_TYPE_FIELD_ISDST_def
      LOCAL_TIME_TYPE_FIELD_DESIG_IDX_def del: Suc_numeral)

section \<open>Offset formatting\<close>








end
